theory Spec2Isabelle
  imports Complex_Main "HOL-Library.AList" "HOL-Library.Sublist"
begin

section \<open>Python values\<close>

text \<open>
  The readers of \<^verbatim>\<open>ctd_tools/modules/reader.py\<close> are embedded as HOL functions.
  An exception is a value of type \<open>error\<close>; a function that may raise returns
  \<open>error + 'a\<close> with \<open>Inl\<close> for the exception.
\<close>

datatype error =
    ValueError string
  | KeyError string
  | IndexError
  | UnboundLocalError string
  | OutOfBoundsDatetime
  | DatabaseError string

text \<open>
  A Python \<^verbatim>\<open>dict\<close> keeps its keys in insertion order and \<^verbatim>\<open>d[k] = v\<close> overwrites
  in place or appends: an association list with distinct keys, written by
  \<^const>\<open>AList.update\<close> and read by \<^const>\<open>map_of\<close>.
\<close>

type_synonym ('k, 'v) dict = "('k \<times> 'v) list"

definition keys :: "('k, 'v) dict \<Rightarrow> 'k list" where
  "keys d = map fst d"

definition getitem :: "(string, 'v) dict \<Rightarrow> string \<Rightarrow> error + 'v" where
  "getitem d k = (case map_of d k of None \<Rightarrow> Inl (KeyError k) | Some v \<Rightarrow> Inr v)"

text \<open>Truth value of a string (\<^verbatim>\<open>not s\<close> holds for the empty string only) and of an
  optional string (\<^verbatim>\<open>None\<close> is false).\<close>

definition truthy :: "string \<Rightarrow> bool" where
  "truthy s = (s \<noteq> [])"

fun truthy_opt :: "string option \<Rightarrow> bool" where
  "truthy_opt None = False"
| "truthy_opt (Some s) = truthy s"

text \<open>
  One element of a column: a floating-point number (rounding is not modelled, the
  value is a real), the float NaN, a string, an absolute timestamp in seconds since
  1970-01-01 00:00:00, the missing timestamp NaT, or \<^verbatim>\<open>None\<close>.
\<close>

datatype cell = Num real | NaN | Str string | Stamp real | NaT | PyNone

subsection \<open>String methods\<close>

definition lower_char :: "char \<Rightarrow> char" where
  "lower_char c = (let n = (of_char c :: nat) in if 65 \<le> n \<and> n \<le> 90 then char_of (n + 32) else c)"

definition lower :: "string \<Rightarrow> string" where
  "lower s = map lower_char s"

definition isspace :: "char \<Rightarrow> bool" where
  "isspace c = (let n = (of_char c :: nat) in
     (9 \<le> n \<and> n \<le> 13) \<or> (28 \<le> n \<and> n \<le> 32) \<or> n = 133 \<or> n = 160)"

definition strip :: "string \<Rightarrow> string" where
  "strip s = rev (dropWhile isspace (rev (dropWhile isspace s)))"

text \<open>\<^verbatim>\<open>s.replace(old, '')\<close> for a non-empty \<open>old\<close>: every occurrence, left to right,
  without overlap.\<close>

function remove_all :: "string \<Rightarrow> string \<Rightarrow> string" where
  "remove_all old s =
     (if s = [] \<or> old = [] then s
      else if prefix old s then remove_all old (drop (length old) s)
      else hd s # remove_all old (tl s))"
  by pat_completeness auto
termination
  by (relation "measure (\<lambda>(old, s). length s)") auto

declare remove_all.simps [simp del]

section \<open>The parameter registry\<close>

text \<open>
  The module \<^verbatim>\<open>ctd_tools.ctd_parameters\<close> (\<^verbatim>\<open>ctdparams\<close>) holds the canonical keys, the
  alias table \<^verbatim>\<open>default_mappings\<close>, the default metadata and the rename table. The
  readers only read it, so it is a parameter \<open>P\<close> of every function below.
\<close>

record ctdparams =
  TIME :: string
  TIME_J :: string
  TIME_Q :: string
  TIME_N :: string
  TIME_S :: string
  PRESSURE :: string
  DEPTH :: string
  LATITUDE :: string
  LONGITUDE :: string
  TEMPERATURE :: string
  SALINITY :: string
  CONDUCTIVITY :: string
  SPEED_OF_SOUND :: string
  POWER_SUPPLY_INPUT_VOLTAGE :: string
  default_mappings :: "(string, string list) dict"
  metadata :: "(string, (string, string) dict) dict"
  rename_list :: "(string, string) dict"

section \<open>The dataset\<close>

text \<open>
  An \<^verbatim>\<open>xarray.Dataset\<close> as the readers use it: the ordered dictionary of all its
  variables (coordinates included), the names that are coordinates, and the
  dataset-level attributes. A variable has its dimensions, its values and its
  attribute dictionary.
\<close>

record variable =
  dims :: "string list"
  vals :: "cell list"
  attrs :: "(string, string) dict"

record dataset =
  variables :: "(string, variable) dict"
  coord_names :: "string list"
  ds_attrs :: "(string, cell) dict"

definition data_vars :: "dataset \<Rightarrow> string list" where
  "data_vars ds = filter (\<lambda>k. k \<notin> set (coord_names ds)) (keys (variables ds))"

definition coords :: "dataset \<Rightarrow> string list" where
  "coords ds = filter (\<lambda>k. k \<in> set (coord_names ds)) (keys (variables ds))"

section \<open>AbstractReader\<close>

text \<open>A reader instance: \<^verbatim>\<open>self.data\<close> is \<open>None\<close> until a dataset is stored;
  \<^verbatim>\<open>get_data\<close> returns it.\<close>

record reader =
  input_file :: string
  data :: "dataset option"
  mapping :: "(string, string) dict option"

definition get_data :: "reader \<Rightarrow> dataset option" where
  "get_data self = data self"

subsection \<open>Required parameters\<close>

text \<open>
  \<^verbatim>\<open>_validate_necessary_parameters(data, longitude, latitude, entity)\<close>. The argument
  \<open>names\<close> is what \<^verbatim>\<open>in data\<close> tests: the keys of a dict, the variables of a dataset.
  Python reads \<^verbatim>\<open>not a and not b and not c and not d in data\<close> as
  \<^verbatim>\<open>(not a) and (not b) and (not c) and (not (d in data))\<close>, and
  \<^verbatim>\<open>not p in data and not q\<close> as \<^verbatim>\<open>(not (p in data)) and (not q)\<close>.
\<close>

definition missing_msg :: "string \<Rightarrow> string \<Rightarrow> string" where
  "missing_msg name entity =
     ''Parameter '' @ [CHR 0x27] @ name @ [CHR 0x27] @ '' is missing in '' @ entity @ ''.''"

definition validate_necessary_parameters :: "ctdparams \<Rightarrow> string list \<Rightarrow> string \<Rightarrow> error + unit" where
  "validate_necessary_parameters P names entity =
     (if \<not> truthy (TIME P) \<and> \<not> truthy (TIME_J P) \<and> \<not> truthy (TIME_Q P)
           \<and> \<not> (TIME_N P \<in> set names)
      then Inl (ValueError (missing_msg (TIME P) entity))
      else if \<not> (PRESSURE P \<in> set names) \<and> \<not> truthy (DEPTH P)
      then Inl (ValueError (missing_msg (PRESSURE P) entity))
      else Inr ())"

subsection \<open>Metadata\<close>

text \<open>
  \<^verbatim>\<open>_assign_metadata_for_key_to_xarray_dataset(ds, key, label, unit)\<close> on the attribute
  dictionary of \<^verbatim>\<open>ds[key]\<close>: registry defaults are stored for the attributes that are
  not there yet, then a true \<open>unit\<close> is stored as \<^verbatim>\<open>units\<close> and a true \<open>label\<close>
  (with the bracketed unit removed) as \<^verbatim>\<open>long_name\<close>.
\<close>

definition fill_defaults :: "(string, string) dict \<Rightarrow> (string, string) dict \<Rightarrow> (string, string) dict" where
  "fill_defaults md ats =
     fold (\<lambda>(attribute, v) ats. if attribute \<notin> set (keys ats) then AList.update attribute v ats else ats) md ats"

definition clean_label :: "string \<Rightarrow> string option \<Rightarrow> string" where
  "clean_label label unit =
     (if truthy_opt unit then strip (remove_all (''['' @ the unit @ '']'') label) else label)"

definition assign_metadata :: "ctdparams \<Rightarrow> string \<Rightarrow> string option \<Rightarrow> string option
    \<Rightarrow> (string, string) dict \<Rightarrow> (string, string) dict" where
  "assign_metadata P key label unit ats =
     (let a1 = (case map_of (metadata P) key of
                  Some md \<Rightarrow> fill_defaults md ats
                | None \<Rightarrow> ats);
          a2 = (if truthy_opt unit then AList.update ''units'' (the unit) a1 else a1)
      in if truthy_opt label then AList.update ''long_name'' (clean_label (the label) unit) a2 else a2)"

definition assign_metadata_for_key_to_xarray_dataset ::
    "ctdparams \<Rightarrow> dataset \<Rightarrow> string \<Rightarrow> string option \<Rightarrow> string option \<Rightarrow> error + dataset" where
  "assign_metadata_for_key_to_xarray_dataset P ds key label unit =
     (case map_of (variables ds) key of
        None \<Rightarrow> Inl (KeyError key)
      | Some v \<Rightarrow> Inr (ds\<lparr>variables :=
          AList.update key (v\<lparr>attrs := assign_metadata P key label unit (attrs v)\<rparr>) (variables ds)\<rparr>))"

text \<open>The closing loop of every reader: metadata for all data variables, then all
  coordinates, with no label and no unit.\<close>

fun assign_metadata_all :: "ctdparams \<Rightarrow> string list \<Rightarrow> dataset \<Rightarrow> error + dataset" where
  "assign_metadata_all P [] ds = Inr ds"
| "assign_metadata_all P (key # ks) ds =
     (case assign_metadata_for_key_to_xarray_dataset P ds key None None of
        Inl e \<Rightarrow> Inl e
      | Inr ds' \<Rightarrow> assign_metadata_all P ks ds')"

definition fill_metadata :: "ctdparams \<Rightarrow> dataset \<Rightarrow> error + dataset" where
  "fill_metadata P ds = assign_metadata_all P (data_vars ds @ coords ds) ds"

subsection \<open>Renaming\<close>

definition bind_err :: "error + 'a \<Rightarrow> ('a \<Rightarrow> error + 'b) \<Rightarrow> error + 'b" where
  "bind_err m f = (case m of Inl e \<Rightarrow> Inl e | Inr x \<Rightarrow> f x)"

text \<open>
  \<^verbatim>\<open>Dataset.rename(name_dict)\<close> of xarray: a key that is neither a variable nor a
  dimension is refused; every variable, dimension and coordinate name is replaced,
  and the order of the variables is kept; two variables with one new name are
  refused.
\<close>

definition rename_name :: "(string, string) dict \<Rightarrow> string \<Rightarrow> string" where
  "rename_name name_dict k = (case map_of name_dict k of Some n \<Rightarrow> n | None \<Rightarrow> k)"

definition ds_dims :: "dataset \<Rightarrow> string list" where
  "ds_dims ds = concat (map (\<lambda>(k, v). dims v) (variables ds))"

definition ds_rename :: "(string, string) dict \<Rightarrow> dataset \<Rightarrow> error + dataset" where
  "ds_rename name_dict ds =
     (if \<exists>k \<in> set (keys name_dict). k \<notin> set (keys (variables ds)) \<and> k \<notin> set (ds_dims ds)
      then Inl (ValueError ''cannot rename: not a variable or dimension in this dataset'')
      else let new = map (\<lambda>(k, v). (rename_name name_dict k,
                                       v\<lparr>dims := map (rename_name name_dict) (dims v)\<rparr>))
                         (variables ds)
           in if distinct (keys new)
              then Inr (ds\<lparr>variables := new,
                           coord_names := map (rename_name name_dict) (coord_names ds)\<rparr>)
              else Inl (ValueError ''the new name conflicts''))"

text \<open>
  \<^verbatim>\<open>_rename_xarray_parameters(ds)\<close>. \<open>ds_vars_lower\<close> is the dict comprehension
  \<^verbatim>\<open>{var.lower(): var for var in ds.variables}\<close>; \<open>rename_step\<close> is the body of the
  loop over \<^verbatim>\<open>default_mappings.items()\<close>, whose inner loop stops at the first alias
  that is found.
\<close>

definition ds_vars_lower :: "string list \<Rightarrow> (string, string) dict" where
  "ds_vars_lower vs = fold (\<lambda>var d. AList.update (lower var) var d) vs []"

definition rename_step :: "string list \<Rightarrow> (string, string) dict \<Rightarrow> string \<times> string list
    \<Rightarrow> (string, string) dict \<Rightarrow> (string, string) dict" where
  "rename_step vs lowered = (\<lambda>(standard_name, aliases) rename_dict.
     (case find (\<lambda>alias. lower alias \<in> set (keys lowered) \<and> standard_name \<notin> set vs) aliases of
        Some alias \<Rightarrow> AList.update (the (map_of lowered (lower alias))) standard_name rename_dict
      | None \<Rightarrow> rename_dict))"

definition rename_dict_of :: "ctdparams \<Rightarrow> string list \<Rightarrow> (string, string) dict" where
  "rename_dict_of P vs = fold (rename_step vs (ds_vars_lower vs)) (default_mappings P) []"

definition rename_xarray_parameters :: "ctdparams \<Rightarrow> dataset \<Rightarrow> error + dataset" where
  "rename_xarray_parameters P ds = ds_rename (rename_dict_of P (keys (variables ds))) ds"

text \<open>
  \<^verbatim>\<open>_perform_default_postprocessing(ds)\<close>: the caller's mapping (key, value) renames
  the variable \<open>value\<close> to \<open>key\<close>, one item after the other on the dataset renamed
  so far; then the registry renaming; then the metadata.
\<close>

fun apply_custom_mapping :: "(string \<times> string) list \<Rightarrow> dataset \<Rightarrow> error + dataset" where
  "apply_custom_mapping [] ds = Inr ds"
| "apply_custom_mapping ((key, v) # items) ds =
     (if v \<in> set (keys (variables ds))
      then bind_err (ds_rename [(v, key)] ds) (apply_custom_mapping items)
      else apply_custom_mapping items ds)"

definition perform_default_postprocessing ::
    "ctdparams \<Rightarrow> (string, string) dict option \<Rightarrow> dataset \<Rightarrow> error + dataset" where
  "perform_default_postprocessing P mapping_opt ds =
     bind_err (case mapping_opt of None \<Rightarrow> Inr ds | Some m \<Rightarrow> apply_custom_mapping m ds)
       (\<lambda>ds1. bind_err (rename_xarray_parameters P ds1) (fill_metadata P))"

subsection \<open>Building the dataset\<close>

text \<open>
  The size of a dimension in a dataset (\<open>None\<close> when no variable has it), and the
  check xarray makes when a one-dimensional variable is stored: its length must be
  the size the dimension already has.
\<close>

definition dim_size :: "dataset \<Rightarrow> string \<Rightarrow> nat option" where
  "dim_size ds d =
     (case filter (\<lambda>(k, v). d \<in> set (dims v)) (variables ds) of
        [] \<Rightarrow> None
      | (k, v) # _ \<Rightarrow> Some (length (vals v)))"

definition ds_setitem :: "dataset \<Rightarrow> string \<Rightarrow> string \<Rightarrow> cell list \<Rightarrow> (string, string) dict
    \<Rightarrow> error + dataset" where
  "ds_setitem ds key d xs ats =
     (let others = ds\<lparr>variables := filter (\<lambda>(k, v). k \<noteq> key) (variables ds)\<rparr>
      in if dim_size others d \<noteq> None \<and> dim_size others d \<noteq> Some (length xs)
         then Inl (ValueError ''conflicting sizes for dimension'')
         else Inr (ds\<lparr>variables :=
                AList.update key \<lparr>dims = [d], vals = xs, attrs = ats\<rparr> (variables ds)\<rparr>))"

text \<open>
  \<^verbatim>\<open>_get_xarray_dataset_template(time_array, depth_array, latitude, longitude)\<close>. The
  coordinates are the keyword names \<^verbatim>\<open>time\<close>, \<^verbatim>\<open>depth\<close>, \<^verbatim>\<open>latitude\<close>, \<^verbatim>\<open>longitude\<close>;
  \<^verbatim>\<open>depth\<close> is given on the dimension \<^verbatim>\<open>ctdparams.TIME\<close>, so a \<open>depth_array\<close> that
  is \<^verbatim>\<open>None\<close> (no dimension) or of another length than \<^verbatim>\<open>time\<close> is refused by
  xarray. \<open>now\<close> is the formatted \<^verbatim>\<open>datetime.now()\<close>.
\<close>

definition get_xarray_dataset_template ::
    "ctdparams \<Rightarrow> string \<Rightarrow> cell list \<Rightarrow> cell list option \<Rightarrow> cell \<Rightarrow> cell \<Rightarrow> error + dataset" where
  "get_xarray_dataset_template P now time_array depth_array latitude longitude =
     (case depth_array of
        None \<Rightarrow> Inl (ValueError ''dimensions must have the same length as the number of data dimensions'')
      | Some depth \<Rightarrow>
          if TIME P = ''time'' \<and> length depth \<noteq> length time_array
          then Inl (ValueError ''conflicting sizes for dimension'')
          else Inr \<lparr>variables =
                      [(''time'', \<lparr>dims = [''time''], vals = time_array, attrs = []\<rparr>),
                       (''depth'', \<lparr>dims = [TIME P], vals = depth, attrs = []\<rparr>),
                       (''latitude'', \<lparr>dims = [], vals = [latitude], attrs = []\<rparr>),
                       (''longitude'', \<lparr>dims = [], vals = [longitude], attrs = []\<rparr>)],
                    coord_names = [''time'', ''depth'', ''latitude'', ''longitude''],
                    ds_attrs =
                      [(''latitude'', latitude), (''longitude'', longitude),
                       (''CreateTime'', Str now), (''DataType'', Str ''TimeSeries'')]\<rparr>)"

text \<open>\<^verbatim>\<open>_assign_data_for_key_to_xarray_dataset(ds, key, data)\<close>: a variable on the
  dimension \<^verbatim>\<open>ctdparams.TIME\<close> with an empty attribute dictionary.\<close>

definition assign_data_for_key_to_xarray_dataset ::
    "ctdparams \<Rightarrow> dataset \<Rightarrow> string \<Rightarrow> cell list \<Rightarrow> error + dataset" where
  "assign_data_for_key_to_xarray_dataset P ds key xs = ds_setitem ds key (TIME P) xs []"

subsection \<open>Time decoding\<close>

text \<open>
  \<^verbatim>\<open>datetime(year, month, day)\<close> as seconds since 1970-01-01: the day number of a
  date of the proleptic Gregorian calendar, counted from 1970-01-01.
\<close>

definition days_from_civil :: "int \<Rightarrow> int \<Rightarrow> int \<Rightarrow> int" where
  "days_from_civil y m d =
     (let y' = (if m \<le> 2 then y - 1 else y);
          era = y' div 400;
          yoe = y' - era * 400;
          doy = (153 * (if m > 2 then m - 3 else m + 9) + 2) div 5 + d - 1;
          doe = yoe * 365 + yoe div 4 - yoe div 100 + doy
      in era * 146097 + doe - 719468)"

definition datetime :: "int \<Rightarrow> int \<Rightarrow> int \<Rightarrow> real" where
  "datetime y m d = of_int (days_from_civil y m d * 86400)"

text \<open>\<^verbatim>\<open>int(x)\<close> of a float truncates towards zero.\<close>

definition py_int :: "real \<Rightarrow> int" where
  "py_int x = (if x < 0 then \<lceil>x\<rceil> else \<lfloor>x\<rfloor>)"

text \<open>
  The four conversions of one sample. A sample that is NaN makes \<^verbatim>\<open>int\<close> and
  \<^verbatim>\<open>timedelta\<close> raise \<^verbatim>\<open>ValueError\<close>.
\<close>

fun julian_to_gregorian :: "cell \<Rightarrow> real \<Rightarrow> error + cell" where
  "julian_to_gregorian (Num julian_days) start_date =
     (let full_days = py_int julian_days;
          seconds = (julian_days - of_int full_days) * 24 * 60 * 60
      in Inr (Stamp (start_date + (of_int full_days * 86400 + seconds))))"
| "julian_to_gregorian c start_date = Inl (ValueError ''cannot convert float NaN to integer'')"

fun elapsed_seconds_since_offset_to_datetime :: "cell \<Rightarrow> real \<Rightarrow> error + cell" where
  "elapsed_seconds_since_offset_to_datetime (Num elapsed_seconds) offset_datetime =
     Inr (Stamp (offset_datetime + elapsed_seconds))"
| "elapsed_seconds_since_offset_to_datetime c offset_datetime =
     Inl (ValueError ''cannot convert float NaN to integer'')"

definition elapsed_seconds_since_jan_1970_to_datetime :: "cell \<Rightarrow> error + cell" where
  "elapsed_seconds_since_jan_1970_to_datetime elapsed_seconds =
     elapsed_seconds_since_offset_to_datetime elapsed_seconds (datetime 1970 1 1)"

definition elapsed_seconds_since_jan_2000_to_datetime :: "cell \<Rightarrow> error + cell" where
  "elapsed_seconds_since_jan_2000_to_datetime elapsed_seconds =
     elapsed_seconds_since_offset_to_datetime elapsed_seconds (datetime 2000 1 1)"

text \<open>A list comprehension over a conversion that may raise: the first error ends it.\<close>

fun map_err :: "('a \<Rightarrow> error + 'b) \<Rightarrow> 'a list \<Rightarrow> error + 'b list" where
  "map_err f [] = Inr []"
| "map_err f (x # xs) =
     (case f x of
        Inl e \<Rightarrow> Inl e
      | Inr y \<Rightarrow> (case map_err f xs of Inl e \<Rightarrow> Inl e | Inr ys \<Rightarrow> Inr (y # ys)))"

section \<open>CnvReader\<close>

text \<open>
  What \<^verbatim>\<open>pycnv.pycnv(input_file)\<close> gives the reader: the channel descriptions, the
  data, names and units by channel name, the position, the start date (to the
  second) and the header, here as its lines.
\<close>

record cnv =
  channels :: "(string, string) dict list"
  cnv_data :: "(string, cell list) dict"
  cnv_names :: "(string, string) dict"
  cnv_units :: "(string, string) dict"
  lat :: "real option"
  lon :: "real option"
  date :: "int \<times> int \<times> int \<times> int \<times> int \<times> int"
  header :: "string list"

text \<open>The functions of the \<^verbatim>\<open>gsw\<close> library the readers call; they are parameters.\<close>

record gsw =
  z_from_p :: "cell list \<Rightarrow> real option \<Rightarrow> cell list"
  rho :: "cell list \<Rightarrow> cell list \<Rightarrow> cell list \<Rightarrow> cell list"
  pt0_from_t :: "cell list \<Rightarrow> cell list \<Rightarrow> cell list \<Rightarrow> cell list"

subsection \<open>Header directives\<close>

text \<open>
  \<^verbatim>\<open>float(s)\<close> for a string of digits and dots, which is all the pattern
  \<^verbatim>\<open>[\d.]+\<close> lets through: one dot at most and one digit at least, else
  \<^verbatim>\<open>ValueError\<close>.
\<close>

definition isdigit :: "char \<Rightarrow> bool" where
  "isdigit c = (let n = (of_char c :: nat) in 48 \<le> n \<and> n \<le> 57)"

definition digits_value :: "string \<Rightarrow> nat" where
  "digits_value s = foldl (\<lambda>a c. 10 * a + (of_char c - 48)) 0 s"

definition float_of_digits :: "string \<Rightarrow> error + real" where
  "float_of_digits s =
     (let ip = takeWhile (\<lambda>c. c \<noteq> CHR ''.'') s;
          fp = drop (length ip + 1) s
      in if CHR ''.'' \<in> set fp \<or> ip @ fp = []
         then Inl (ValueError ''could not convert string to float'')
         else Inr (of_nat (digits_value ip) + of_nat (digits_value fp) / 10 ^ length fp))"

text \<open>
  \<^verbatim>\<open>re.search(r'^# interval = seconds: ([\d.]+)$', string, re.MULTILINE)\<close> and
  \<^verbatim>\<open>re.search(r'^# bad_flag = (.+)$', string, re.MULTILINE)\<close>: the first line that
  is the fixed text followed by a non-empty group.
\<close>

definition match_line :: "string \<Rightarrow> (char \<Rightarrow> bool) \<Rightarrow> string list \<Rightarrow> string option" where
  "match_line fixed ok ls =
     (case filter (\<lambda>l. prefix fixed l \<and> drop (length fixed) l \<noteq> []
                        \<and> (\<forall>c \<in> set (drop (length fixed) l). ok c)) ls of
        [] \<Rightarrow> None
      | l # _ \<Rightarrow> Some (drop (length fixed) l))"

definition get_scan_interval_in_seconds :: "string list \<Rightarrow> error + real option" where
  "get_scan_interval_in_seconds ls =
     (case match_line ''# interval = seconds: '' (\<lambda>c. isdigit c \<or> c = CHR ''.'') ls of
        Some g \<Rightarrow> bind_err (float_of_digits g) (\<lambda>seconds. Inr (Some seconds))
      | None \<Rightarrow> Inr None)"

definition get_bad_flag :: "string list \<Rightarrow> string option" where
  "get_bad_flag ls = match_line ''# bad_flag = '' (\<lambda>c. True) ls"

subsection \<open>Reading a CNV file\<close>

definition channel_names :: "cnv \<Rightarrow> string list" where
  "channel_names c = List.map_filter (\<lambda>d. map_of d ''name'') (channels c)"

text \<open>The loop that completes \<^verbatim>\<open>self.mapping\<close>: a key the mapping already has is
  left alone, another key takes the first of its aliases that is a channel name.\<close>

definition map_channels :: "ctdparams \<Rightarrow> string list \<Rightarrow> (string, string) dict \<Rightarrow> (string, string) dict" where
  "map_channels P names m =
     fold (\<lambda>(key, aliases) m.
             if key \<in> set (keys m) then m
             else (case find (\<lambda>v. v \<in> set names) aliases of
                     Some v \<Rightarrow> AList.update key v m
                   | None \<Rightarrow> m))
          (default_mappings P) m"

record cnv_columns =
  xarray_data :: "(string, cell list) dict"
  xarray_labels :: "(string, string) dict"
  xarray_units :: "(string, string) dict"
  maxCount :: "nat option"

fun collect_columns :: "cnv \<Rightarrow> (string \<times> string) list \<Rightarrow> cnv_columns \<Rightarrow> error + cnv_columns" where
  "collect_columns c [] acc = Inr acc"
| "collect_columns c ((k, v) # items) acc =
     bind_err (getitem (cnv_data c) v) (\<lambda>xs.
     bind_err (getitem (cnv_names c) v) (\<lambda>name.
     bind_err (getitem (cnv_units c) v) (\<lambda>unit.
       collect_columns c items
         \<lparr>xarray_data = AList.update k xs (xarray_data acc),
          xarray_labels = AList.update k name (xarray_labels acc),
          xarray_units = AList.update k unit (xarray_units acc),
          maxCount = Some (length xs)\<rparr>)))"

definition offset_datetime :: "cnv \<Rightarrow> real" where
  "offset_datetime c =
     (case date c of (y, mo, d, h, mi, s) \<Rightarrow> datetime y mo d + of_int (h * 3600 + mi * 60 + s))"

definition year_startdate :: "cnv \<Rightarrow> real" where
  "year_startdate c = (case date c of (y, mo, d, h, mi, s) \<Rightarrow> datetime y 1 1)"

text \<open>
  The time coordinate. \<open>None\<close> is \<^verbatim>\<open>time_coords\<close> left unbound: no time channel and
  no (non-zero) scan interval. The branch of \<^verbatim>\<open>TIME_N\<close> reads the column of
  \<^verbatim>\<open>TIME_Q\<close>, as the source does.
\<close>

definition cnv_time_coords :: "ctdparams \<Rightarrow> cnv \<Rightarrow> cnv_columns \<Rightarrow> error + cell list option" where
  "cnv_time_coords P c cols =
     (let xd = xarray_data cols in
      if TIME_J P \<in> set (keys xd) then
        bind_err (getitem xd (TIME_J P)) (\<lambda>xs.
        bind_err (map_err (\<lambda>jday. julian_to_gregorian jday (year_startdate c)) xs) (\<lambda>ts.
          Inr (Some ts)))
      else if TIME_Q P \<in> set (keys xd) then
        bind_err (getitem xd (TIME_Q P)) (\<lambda>xs.
        bind_err (map_err elapsed_seconds_since_jan_2000_to_datetime xs) (\<lambda>ts.
          Inr (Some ts)))
      else if TIME_N P \<in> set (keys xd) then
        bind_err (getitem xd (TIME_Q P)) (\<lambda>xs.
        bind_err (map_err elapsed_seconds_since_jan_1970_to_datetime xs) (\<lambda>ts.
          Inr (Some ts)))
      else if TIME_S P \<in> set (keys xd) then
        bind_err (getitem xd (TIME_S P)) (\<lambda>xs.
        bind_err (map_err (\<lambda>s. elapsed_seconds_since_offset_to_datetime s (offset_datetime c)) xs) (\<lambda>ts.
          Inr (Some ts)))
      else
        bind_err (get_scan_interval_in_seconds (header c)) (\<lambda>timedelta.
          case timedelta of
            None \<Rightarrow> Inr None
          | Some t \<Rightarrow>
              if t = 0 then Inr None
              else (case maxCount cols of
                      None \<Rightarrow> Inl (UnboundLocalError ''maxCount'')
                    | Some n \<Rightarrow> Inr (Some (map (\<lambda>i. Stamp (offset_datetime c + of_nat i * t)) [0..<n])))))"

text \<open>The depth: \<open>None\<close> without a pressure column. Reading element 0 of an empty
  latitude or longitude column raises \<^verbatim>\<open>IndexError\<close>.\<close>

definition first_of :: "(string, cell list) dict \<Rightarrow> string \<Rightarrow> error + unit" where
  "first_of xd k = bind_err (getitem xd k) (\<lambda>xs. if xs = [] then Inl IndexError else Inr ())"

definition cnv_depth :: "ctdparams \<Rightarrow> gsw \<Rightarrow> cnv \<Rightarrow> cnv_columns \<Rightarrow> error + cell list option" where
  "cnv_depth P G c cols =
     (let xd = xarray_data cols in
      if PRESSURE P \<in> set (keys xd) then
        bind_err (if lat c = None \<and> LATITUDE P \<in> set (keys xd) then first_of xd (LATITUDE P) else Inr ()) (\<lambda>_.
        bind_err (if lon c = None \<and> LONGITUDE P \<in> set (keys xd) then first_of xd (LONGITUDE P) else Inr ()) (\<lambda>_.
        bind_err (getitem xd (PRESSURE P)) (\<lambda>p.
          Inr (Some (z_from_p G p (lat c))))))
      else Inr None)"

definition opt_cell :: "real option \<Rightarrow> cell" where
  "opt_cell x = (case x of None \<Rightarrow> PyNone | Some r \<Rightarrow> Num r)"

text \<open>Density and potential temperature, when temperature, pressure and salinity
  are all among the columns.\<close>

definition cnv_derive :: "ctdparams \<Rightarrow> gsw \<Rightarrow> cnv_columns \<Rightarrow> dataset \<Rightarrow> error + dataset" where
  "cnv_derive P G cols ds =
     (let xd = xarray_data cols in
      if TEMPERATURE P \<in> set (keys xd) \<and> PRESSURE P \<in> set (keys xd) \<and> SALINITY P \<in> set (keys xd) then
        bind_err (getitem xd (SALINITY P)) (\<lambda>s.
        bind_err (getitem xd (TEMPERATURE P)) (\<lambda>t.
        bind_err (getitem xd (PRESSURE P)) (\<lambda>p.
        bind_err (ds_setitem ds ''density'' (TIME P) (rho G s t p) []) (\<lambda>ds1.
          ds_setitem ds1 ''potential_temperature'' (TIME P) (pt0_from_t G s t p) []))))
      else Inr ds)"

fun cnv_assign :: "ctdparams \<Rightarrow> cnv_columns \<Rightarrow> string list \<Rightarrow> dataset \<Rightarrow> error + dataset" where
  "cnv_assign P cols [] ds = Inr ds"
| "cnv_assign P cols (key # ks) ds =
     bind_err (getitem (xarray_data cols) key) (\<lambda>xs.
     bind_err (assign_data_for_key_to_xarray_dataset P ds key xs) (\<lambda>ds1.
     bind_err (getitem (xarray_labels cols) key) (\<lambda>label.
     bind_err (getitem (xarray_units cols) key) (\<lambda>unit.
     bind_err (assign_metadata_for_key_to_xarray_dataset P ds1 key (Some label) (Some unit))
       (cnv_assign P cols ks)))))"

text \<open>
  The bad flag is the text of the header directive, a \<^verbatim>\<open>str\<close>. \<^verbatim>\<open>ds[var] != bad_flag\<close>
  compares each element with that string: a number, NaN or a timestamp is never
  equal to a string, so the comparison is true for it; \<^verbatim>\<open>where\<close> keeps the elements
  for which it is true and stores NaN for the others. \<^verbatim>\<open>for var in ds\<close> runs over
  the data variables.
\<close>

fun cell_ne_str :: "cell \<Rightarrow> string \<Rightarrow> bool" where
  "cell_ne_str (Str s) flag = (s \<noteq> flag)"
| "cell_ne_str c flag = True"

definition where_ne :: "string \<Rightarrow> variable \<Rightarrow> variable" where
  "where_ne bad_flag v = v\<lparr>vals := map (\<lambda>c. if cell_ne_str c bad_flag then c else NaN) (vals v)\<rparr>"

definition apply_bad_flag :: "string option \<Rightarrow> dataset \<Rightarrow> dataset" where
  "apply_bad_flag bad_flag ds =
     (case bad_flag of
        None \<Rightarrow> ds
      | Some flag \<Rightarrow>
          ds\<lparr>variables := map (\<lambda>(k, v). if k \<in> set (data_vars ds) then (k, where_ne flag v) else (k, v))
                                (variables ds)\<rparr>)"

text \<open>\<^verbatim>\<open>CnvReader.__read\<close>: the mapping it leaves behind and the dataset or the error.\<close>

definition CnvReader_read :: "ctdparams \<Rightarrow> gsw \<Rightarrow> string \<Rightarrow> cnv \<Rightarrow> (string, string) dict
    \<Rightarrow> (string, string) dict \<times> (error + dataset)" where
  "CnvReader_read P G now c m0 =
     (let m = map_channels P (channel_names c) m0 in
      (m,
       bind_err (validate_necessary_parameters P (keys m) ''mapping data'') (\<lambda>_.
       bind_err (collect_columns c m
                   \<lparr>xarray_data = [], xarray_labels = [], xarray_units = [], maxCount = None\<rparr>) (\<lambda>cols.
       bind_err (cnv_time_coords P c cols) (\<lambda>time_coords.
       bind_err (cnv_depth P G c cols) (\<lambda>depth.
       bind_err (case time_coords of
                   None \<Rightarrow> Inl (UnboundLocalError ''time_coords'')
                 | Some ts \<Rightarrow> get_xarray_dataset_template P now ts depth
                                (opt_cell (lat c)) (opt_cell (lon c))) (\<lambda>ds.
       bind_err (cnv_derive P G cols ds) (\<lambda>ds1.
       bind_err (cnv_assign P cols (keys m) ds1) (\<lambda>ds2.
       bind_err (fill_metadata P ds2) (\<lambda>ds3.
         Inr (apply_bad_flag (get_bad_flag (header c)) ds3)))))))))))"

text \<open>
  \<^verbatim>\<open>CnvReader(input_file, mapping = {})\<close>. The default value of \<^verbatim>\<open>mapping\<close> is one
  dict object, made when the class is defined and kept by the function; a call
  without the argument binds \<^verbatim>\<open>self.mapping\<close> to that object and \<^verbatim>\<open>__read\<close> writes
  into it. \<open>shared\<close> is the content of that object before the call; the second
  component of the result is its content after the call.
\<close>

definition CnvReader :: "ctdparams \<Rightarrow> gsw \<Rightarrow> string \<Rightarrow> string \<Rightarrow> cnv \<Rightarrow> (string, string) dict option
    \<Rightarrow> (string, string) dict \<Rightarrow> (error + reader) \<times> (string, string) dict" where
  "CnvReader P G now file c mapping_arg shared =
     (case CnvReader_read P G now c (case mapping_arg of None \<Rightarrow> shared | Some m \<Rightarrow> m) of
        (m, r) \<Rightarrow>
          (bind_err r (\<lambda>ds. Inr \<lparr>input_file = file, data = Some ds, mapping = Some m\<rparr>),
           case mapping_arg of None \<Rightarrow> m | Some _ \<Rightarrow> shared))"

section \<open>Library parsers\<close>

text \<open>
  The parsers of the standard library and of pandas that the readers call on text
  are parameters: \<open>strptime\<close> is \<^verbatim>\<open>datetime.strptime(s, '%Y-%m-%d %H:%M:%S.%f')\<close>,
  \<open>py_float\<close> is \<^verbatim>\<open>float(s)\<close>, \<open>parse_datetime\<close> is the parser of one timestamp
  behind \<^verbatim>\<open>pd.to_datetime\<close> and \<^verbatim>\<open>parse_dates\<close>. \<open>None\<close> is text they cannot parse.
\<close>

record parsers =
  strptime :: "string \<Rightarrow> real option"
  py_float :: "string \<Rightarrow> real option"
  parse_datetime :: "string \<Rightarrow> real option"

text \<open>
  \<^verbatim>\<open>xr.Dataset.from_dataframe(df)\<close> for a frame with one named index: the index is
  the coordinate and the dimension, every column a data variable on it; columns
  that share a name are refused.
\<close>

definition from_dataframe :: "string \<Rightarrow> cell list \<Rightarrow> (string \<times> cell list) list \<Rightarrow> error + dataset" where
  "from_dataframe index_name index columns =
     (if \<not> distinct (index_name # keys columns)
      then Inl (ValueError ''cannot convert DataFrame with non-unique columns'')
      else Inr \<lparr>variables =
                  (index_name, \<lparr>dims = [index_name], vals = index, attrs = []\<rparr>)
                  # map (\<lambda>(k, xs). (k, \<lparr>dims = [index_name], vals = xs, attrs = []\<rparr>)) columns,
                coord_names = [index_name],
                ds_attrs = []\<rparr>)"

text \<open>\<^verbatim>\<open>ds[key].attrs[a] = value\<close>.\<close>

definition set_attr :: "dataset \<Rightarrow> string \<Rightarrow> string \<Rightarrow> string \<Rightarrow> error + dataset" where
  "set_attr ds key a v =
     (case map_of (variables ds) key of
        None \<Rightarrow> Inl (KeyError key)
      | Some var \<Rightarrow> Inr (ds\<lparr>variables :=
          AList.update key (var\<lparr>attrs := AList.update a v (attrs var)\<rparr>) (variables ds)\<rparr>))"

section \<open>NetCdfReader\<close>

text \<open>\<open>opened\<close> is the dataset \<^verbatim>\<open>xr.open_dataset(self.input_file)\<close> returns; it is
  stored in \<^verbatim>\<open>self.data\<close> first and validated afterwards.\<close>

definition NetCdfReader :: "ctdparams \<Rightarrow> string \<Rightarrow> dataset \<Rightarrow> error + reader" where
  "NetCdfReader P file opened =
     (let self = \<lparr>input_file = file, data = Some opened, mapping = None\<rparr>
      in bind_err (validate_necessary_parameters P (keys (variables opened)) ''netCDF file'') (\<lambda>_.
           Inr self))"

section \<open>CsvReader\<close>

text \<open>
  The rows are those of \<^verbatim>\<open>csv.DictReader\<close>, each a dict from column name to text.
  \<open>column_lists\<close> is the loop that appends every value to the list of its key.
\<close>

definition append_value :: "string \<times> string \<Rightarrow> (string, cell list) dict \<Rightarrow> (string, cell list) dict" where
  "append_value = (\<lambda>(key, v) d.
     AList.update key ((case map_of d key of None \<Rightarrow> [] | Some xs \<Rightarrow> xs) @ [Str v]) d)"

definition column_lists :: "(string \<times> string) list list \<Rightarrow> (string, cell list) dict" where
  "column_lists rows = fold (\<lambda>row d. fold append_value row d) rows []"

fun cell_strptime :: "parsers \<Rightarrow> cell \<Rightarrow> error + cell" where
  "cell_strptime L (Str s) =
     (case strptime L s of
        None \<Rightarrow> Inl (ValueError ''time data does not match format'')
      | Some t \<Rightarrow> Inr (Stamp t))"
| "cell_strptime L c = Inl (ValueError ''strptime() argument 1 must be str'')"

fun cell_float :: "parsers \<Rightarrow> cell \<Rightarrow> error + cell" where
  "cell_float L (Str s) =
     (case py_float L s of
        None \<Rightarrow> Inl (ValueError ''could not convert string to float'')
      | Some x \<Rightarrow> Inr (Num x))"
| "cell_float L (Num x) = Inr (Num x)"
| "cell_float L c = Inl (ValueError ''float() argument must be a string or a real number'')"

text \<open>The loop over \<^verbatim>\<open>data.keys()\<close> that converts the columns the registry knows.\<close>

fun convert_floats :: "ctdparams \<Rightarrow> parsers \<Rightarrow> string list \<Rightarrow> (string, cell list) dict
    \<Rightarrow> error + (string, cell list) dict" where
  "convert_floats P L [] d = Inr d"
| "convert_floats P L (key # ks) d =
     (if key \<noteq> TIME P \<and> key \<in> set (keys (default_mappings P))
      then bind_err (getitem d key) (\<lambda>xs.
           bind_err (map_err (cell_float L) xs) (\<lambda>ys.
             convert_floats P L ks (AList.update key ys d)))
      else convert_floats P L ks d)"

definition element0 :: "cell list \<Rightarrow> error + cell" where
  "element0 xs = (case xs of [] \<Rightarrow> Inl IndexError | x # _ \<Rightarrow> Inr x)"

fun csv_assign :: "ctdparams \<Rightarrow> (string, cell list) dict \<Rightarrow> string list \<Rightarrow> dataset \<Rightarrow> error + dataset" where
  "csv_assign P d [] ds = Inr ds"
| "csv_assign P d (key # ks) ds =
     bind_err (getitem d key) (\<lambda>xs.
     bind_err (assign_data_for_key_to_xarray_dataset P ds key xs) (\<lambda>ds1.
     bind_err (assign_metadata_for_key_to_xarray_dataset P ds1 key None None)
       (csv_assign P d ks)))"

text \<open>\<^verbatim>\<open>CsvReader.__read\<close> after the file is read into rows. The four arguments of
  the template are evaluated from left to right.\<close>

definition csv_template :: "ctdparams \<Rightarrow> string \<Rightarrow> (string, cell list) dict \<Rightarrow> error + dataset" where
  "csv_template P now d =
     bind_err (getitem d (TIME P)) (\<lambda>time_array.
     bind_err (getitem d (DEPTH P)) (\<lambda>depth_array.
     bind_err (bind_err (getitem d (LATITUDE P)) element0) (\<lambda>latitude.
     bind_err (bind_err (getitem d (LONGITUDE P)) element0) (\<lambda>longitude.
       get_xarray_dataset_template P now time_array (Some depth_array) latitude longitude))))"

definition CsvReader_convert :: "ctdparams \<Rightarrow> parsers \<Rightarrow> (string \<times> string) list list
    \<Rightarrow> error + (string, cell list) dict" where
  "CsvReader_convert P L rows =
     (let d = column_lists rows in
      bind_err (validate_necessary_parameters P (keys d) ''CSV file'') (\<lambda>_.
      bind_err (getitem d (TIME P)) (\<lambda>stamps.
      bind_err (map_err (cell_strptime L) stamps) (\<lambda>times.
        (let d1 = AList.update (TIME P) times d in convert_floats P L (keys d1) d1)))))"

definition CsvReader_read :: "ctdparams \<Rightarrow> parsers \<Rightarrow> string \<Rightarrow> (string \<times> string) list list
    \<Rightarrow> error + dataset" where
  "CsvReader_read P L now rows =
     bind_err (CsvReader_convert P L rows) (\<lambda>d.
     bind_err (csv_template P now d) (\<lambda>ds.
       csv_assign P d (keys d) ds))"

definition CsvReader :: "ctdparams \<Rightarrow> parsers \<Rightarrow> string \<Rightarrow> string \<Rightarrow> (string \<times> string) list list
    \<Rightarrow> error + reader" where
  "CsvReader P L now file rows =
     bind_err (CsvReader_read P L now rows) (\<lambda>ds.
       Inr \<lparr>input_file = file, data = Some ds, mapping = None\<rparr>)"

section \<open>Timestamps of pandas\<close>

text \<open>A pandas timestamp is a signed 64-bit count of nanoseconds; a value beyond it
  is refused.\<close>

definition in_bounds :: "real \<Rightarrow> bool" where
  "in_bounds t = (\<bar>t\<bar> * 10 ^ 9 \<le> 2 ^ 63 - 1)"

text \<open>\<^verbatim>\<open>pd.to_datetime(x, errors='coerce')\<close> on one element: what cannot be parsed
  becomes NaT.\<close>

fun to_datetime_coerce :: "parsers \<Rightarrow> cell \<Rightarrow> cell" where
  "to_datetime_coerce L (Stamp t) = Stamp t"
| "to_datetime_coerce L (Str s) = (case parse_datetime L s of Some t \<Rightarrow> Stamp t | None \<Rightarrow> NaT)"
| "to_datetime_coerce L (Num x) = (if in_bounds (x / 10 ^ 9) then Stamp (x / 10 ^ 9) else NaT)"
| "to_datetime_coerce L c = NaT"

text \<open>\<^verbatim>\<open>pd.to_datetime(x, unit='ms')\<close> on one element, with the default
  \<^verbatim>\<open>errors='raise'\<close>.\<close>

fun to_datetime_ms :: "cell \<Rightarrow> error + cell" where
  "to_datetime_ms (Num ms) =
     (if in_bounds (ms / 1000) then Inr (Stamp (ms / 1000)) else Inl OutOfBoundsDatetime)"
| "to_datetime_ms (Str s) = Inl (ValueError ''non convertible value with the unit ms'')"
| "to_datetime_ms (Stamp t) = Inr (Stamp t)"
| "to_datetime_ms c = Inr NaT"

text \<open>
  \<^verbatim>\<open>pd.to_datetime(df[['Year', 'Month', 'Day', 'Hour', 'Minute', 'Second']])\<close> on one
  row, with the default \<^verbatim>\<open>errors='raise'\<close>: year, month and day must be a date of
  the calendar, the time of day is added to it; a row that is no date raises
  \<^verbatim>\<open>ValueError\<close>, a row with a missing number gives NaT.
\<close>

definition leap :: "int \<Rightarrow> bool" where
  "leap y = (y mod 4 = 0 \<and> (y mod 100 \<noteq> 0 \<or> y mod 400 = 0))"

definition days_in_month :: "int \<Rightarrow> int \<Rightarrow> int" where
  "days_in_month y m =
     (if m = 2 then (if leap y then 29 else 28)
      else if m = 4 \<or> m = 6 \<or> m = 9 \<or> m = 11 then 30 else 31)"

definition valid_date :: "real \<Rightarrow> real \<Rightarrow> real \<Rightarrow> bool" where
  "valid_date y m d =
     (y = of_int \<lfloor>y\<rfloor> \<and> m = of_int \<lfloor>m\<rfloor> \<and> d = of_int \<lfloor>d\<rfloor>
      \<and> 1 \<le> y \<and> y \<le> 9999 \<and> 1 \<le> m \<and> m \<le> 12
      \<and> 1 \<le> d \<and> \<lfloor>d\<rfloor> \<le> days_in_month \<lfloor>y\<rfloor> \<lfloor>m\<rfloor>)"

definition is_text :: "cell \<Rightarrow> bool" where
  "is_text c = (case c of Str s \<Rightarrow> True | _ \<Rightarrow> False)"

definition num_of :: "cell \<Rightarrow> real option" where
  "num_of c = (case c of Num x \<Rightarrow> Some x | _ \<Rightarrow> None)"

definition assemble_datetime :: "cell list \<Rightarrow> error + cell" where
  "assemble_datetime cs =
     (if \<exists>c \<in> set cs. is_text c then Inl (ValueError ''cannot assemble the datetimes'')
      else if \<exists>c \<in> set cs. num_of c = None then Inr NaT
      else (case map (\<lambda>c. the (num_of c)) cs of
              [y, mo, d, h, mi, s] \<Rightarrow>
                (let t = datetime \<lfloor>y\<rfloor> \<lfloor>mo\<rfloor> \<lfloor>d\<rfloor> + h * 3600 + mi * 60 + s
                 in if valid_date y mo d \<and> in_bounds t then Inr (Stamp t)
                    else Inl (ValueError ''cannot assemble the datetimes''))
            | _ \<Rightarrow> Inl (ValueError ''cannot assemble the datetimes'')))"

text \<open>The rows of a list of columns of one length.\<close>

fun rows_of :: "'a list list \<Rightarrow> 'a list list" where
  "rows_of [] = []"
| "rows_of (c # cs) = (if cs = [] then map (\<lambda>x. [x]) c else map2 (#) c (rows_of cs))"

section \<open>RbrRskLegacyReader\<close>

text \<open>
  The file is an SQLite database: the rows of the table \<^verbatim>\<open>channels\<close> and the columns
  of the table \<^verbatim>\<open>data\<close>, in the order of its rows.
\<close>

record channel =
  channelID :: nat
  shortName :: string
  longName :: string
  units :: string

record rsk =
  channels_table :: "channel list"
  data_table :: "(string, cell list) dict"

text \<open>\<^verbatim>\<open>f"channel{int(cid):02d}"\<close>.\<close>

fun decimal :: "nat \<Rightarrow> string" where
  "decimal n = (if n < 10 then [char_of (48 + n)] else decimal (n div 10) @ [char_of (48 + n mod 10)])"

declare decimal.simps [simp del]

definition chan_col :: "nat \<Rightarrow> string" where
  "chan_col cid = ''channel'' @ (if cid < 10 then ''0'' else []) @ decimal cid"

definition select_column :: "(string, cell list) dict \<Rightarrow> string \<Rightarrow> error + cell list" where
  "select_column t c = (case map_of t c of None \<Rightarrow> Inl (DatabaseError c) | Some xs \<Rightarrow> Inr xs)"

fun set_channel_attrs :: "channel list \<Rightarrow> dataset \<Rightarrow> error + dataset" where
  "set_channel_attrs [] ds = Inr ds"
| "set_channel_attrs (ch # chs) ds =
     bind_err (set_attr ds (longName ch) ''long_name'' (longName ch)) (\<lambda>ds1.
     bind_err (set_attr ds1 (longName ch) ''units'' (units ch)) (set_channel_attrs chs))"

text \<open>The frame before it becomes a dataset: the time index made from \<^verbatim>\<open>tstamp\<close>
  and the channel columns under their long names.\<close>

definition rsk_frame :: "rsk \<Rightarrow> error + cell list \<times> (string \<times> cell list) list" where
  "rsk_frame db =
     (let channels_df = sort_key channelID (channels_table db);
          chan_cols = map (\<lambda>ch. chan_col (channelID ch)) channels_df
      in bind_err (select_column (data_table db) ''tstamp'') (\<lambda>tstamp.
         bind_err (map_err (select_column (data_table db)) chan_cols) (\<lambda>cols.
         bind_err (map_err to_datetime_ms tstamp) (\<lambda>time.
           Inr (time, zip (map longName channels_df) cols)))))"

definition RbrRskLegacyReader_read :: "ctdparams \<Rightarrow> rsk \<Rightarrow> (string, string) dict option
    \<Rightarrow> error + dataset" where
  "RbrRskLegacyReader_read P db mapping_opt =
     bind_err (rsk_frame db) (\<lambda>(time, columns).
     bind_err (from_dataframe ''time'' time columns) (\<lambda>ds.
     bind_err (set_channel_attrs (sort_key channelID (channels_table db)) ds) (\<lambda>ds1.
       perform_default_postprocessing P mapping_opt ds1)))"

definition RbrRskLegacyReader :: "ctdparams \<Rightarrow> string \<Rightarrow> rsk \<Rightarrow> (string, string) dict option
    \<Rightarrow> error + reader" where
  "RbrRskLegacyReader P file db mapping_opt =
     bind_err (RbrRskLegacyReader_read P db mapping_opt) (\<lambda>ds.
       Inr \<lparr>input_file = file, data = Some ds, mapping = mapping_opt\<rparr>)"

section \<open>NortekAsciiReader\<close>

text \<open>
  \<^verbatim>\<open>__create_xarray_dataset(df, headers)\<close>: \<open>df\<close> is the frame read from the data file,
  \<open>headers\<close> the (number, name, unit) triples of the header file.
\<close>

fun nortek_units :: "ctdparams \<Rightarrow> (string \<times> string \<times> string) list \<Rightarrow> dataset \<Rightarrow> error + dataset" where
  "nortek_units P [] ds = Inr ds"
| "nortek_units P ((n, var, unit) # hs) ds =
     bind_err (set_attr ds (rename_name (rename_list P) var) ''unit'' unit) (nortek_units P hs)"

definition NortekAsciiReader_create_xarray_dataset ::
    "ctdparams \<Rightarrow> (string \<times> cell list) list \<Rightarrow> (string \<times> string \<times> string) list \<Rightarrow> error + dataset" where
  "NortekAsciiReader_create_xarray_dataset P df headers =
     bind_err (map_err (getitem df) [''Year'', ''Month'', ''Day'', ''Hour'', ''Minute'', ''Second'']) (\<lambda>parts.
     bind_err (map_err assemble_datetime (rows_of parts)) (\<lambda>time.
     bind_err (from_dataframe ''time'' time
                 (map (\<lambda>(k, xs). (rename_name (rename_list P) k, xs))
                      (filter (\<lambda>(k, xs). k \<noteq> ''time'') df))) (\<lambda>ds.
     bind_err (nortek_units P headers ds) (fill_metadata P))))"

definition NortekAsciiReader :: "ctdparams \<Rightarrow> (string \<times> cell list) list \<Rightarrow> (string \<times> string \<times> string) list
    \<Rightarrow> error + dataset option" where
  "NortekAsciiReader P df headers =
     bind_err (NortekAsciiReader_create_xarray_dataset P df headers) (\<lambda>ds. Inr (Some ds))"

section \<open>TobReader\<close>

text \<open>
  \<open>tob_lines\<close> are the lines of the file; \<open>tob_columns\<close> are the text fields of the
  data rows, column by column, as \<^verbatim>\<open>pd.read_csv\<close> splits them at white space.
\<close>

record tob =
  tob_lines :: "string list"
  tob_columns :: "string list list"

text \<open>\<^verbatim>\<open>s.split()\<close>: the maximal runs without white space.\<close>

definition split_ws :: "string \<Rightarrow> string list" where
  "split_ws s =
     (case foldl (\<lambda>(ws, cur) c. if isspace c then (if cur = [] then ws else ws @ [cur], [])
                                  else (ws, cur @ [c])) ([], []) s of
        (ws, cur) \<Rightarrow> if cur = [] then ws else ws @ [cur])"

fun first_index :: "('a \<Rightarrow> bool) \<Rightarrow> 'a list \<Rightarrow> nat option" where
  "first_index p [] = None"
| "first_index p (x # xs) = (if p x then Some 0 else map_option Suc (first_index p xs))"

text \<open>A column of text that \<^verbatim>\<open>read_csv\<close> reads as numbers when every field is one.\<close>

definition infer_column :: "parsers \<Rightarrow> string list \<Rightarrow> cell list" where
  "infer_column L xs =
     (if \<forall>x \<in> set xs. py_float L x \<noteq> None then map (\<lambda>x. Num (the (py_float L x))) xs
      else map Str xs)"

text \<open>\<^verbatim>\<open>parse_dates={TIME: ['IntD', 'IntT']}\<close>: the two fields joined by a space; the
  column is left as text unless every row parses.\<close>

definition combine_dates :: "parsers \<Rightarrow> string list \<Rightarrow> string list \<Rightarrow> cell list" where
  "combine_dates L ds ts =
     (let joined = map2 (\<lambda>d t. d @ '' '' @ t) ds ts
      in if \<forall>x \<in> set joined. parse_datetime L x \<noteq> None
         then map (\<lambda>x. Stamp (the (parse_datetime L x))) joined
         else map Str joined)"

fun tob_units :: "string option list \<Rightarrow> (nat \<times> string) list \<Rightarrow> dataset \<Rightarrow> error + dataset" where
  "tob_units us [] ds = Inr ds"
| "tob_units us ((i, name) # rest) ds =
     (if name \<in> set (keys (variables ds))
      then (if i < length us
            then (if truthy_opt (us ! i)
                  then bind_err (set_attr ds name ''units'' (the (us ! i))) (tob_units us rest)
                  else tob_units us rest ds)
            else Inl IndexError)
      else tob_units us rest ds)"

definition tob_rename :: "ctdparams \<Rightarrow> (string, string) dict" where
  "tob_rename P =
     [(''SALIN'', SALINITY P), (''Temp'', TEMPERATURE P), (''Cond'', CONDUCTIVITY P),
      (''Press'', PRESSURE P), (''SOUND'', SPEED_OF_SOUND P),
      (''Vbatt'', POWER_SUPPLY_INPUT_VOLTAGE P), (''SIGMA'', ''sigma''), (''Datasets'', ''sample'')]"

definition tob_depth :: "gsw \<Rightarrow> dataset \<Rightarrow> error + dataset" where
  "tob_depth G ds =
     (case map_of (variables ds) ''pressure'' of
        None \<Rightarrow> Inl (KeyError ''pressure'')
      | Some p \<Rightarrow>
          bind_err (ds_setitem ds ''depth'' ''time'' (z_from_p G (vals p) (Some (538187 / 10000))) [])
            (\<lambda>ds1. set_attr ds1 ''depth'' ''units'' ''m''))"

definition tob_time :: "ctdparams \<Rightarrow> parsers \<Rightarrow> dataset \<Rightarrow> error + dataset" where
  "tob_time P L ds =
     (case map_of (variables ds) (TIME P) of
        None \<Rightarrow> Inl (KeyError (TIME P))
      | Some t \<Rightarrow> Inr (ds\<lparr>variables :=
          AList.update (TIME P) (t\<lparr>vals := map (to_datetime_coerce L) (vals t), attrs := []\<rparr>)
            (variables ds)\<rparr>))"

text \<open>
  The reader after the frame is read: the dataset of the frame (\<open>time\<close> is its
  index, \<open>columns\<close> its columns), the units, the renaming and the depth
  (\<open>tob_prepare\<close>), the conversion of the time coordinate, the metadata.
\<close>

definition tob_prepare :: "ctdparams \<Rightarrow> gsw \<Rightarrow> string option list \<Rightarrow> string list \<Rightarrow> dataset
    \<Rightarrow> error + dataset" where
  "tob_prepare P G us column_names ds0 =
     bind_err (tob_units us (enumerate 0 column_names) ds0) (\<lambda>ds1.
     bind_err (ds_rename (tob_rename P) ds1) (tob_depth G))"

definition tob_build :: "ctdparams \<Rightarrow> gsw \<Rightarrow> parsers \<Rightarrow> string option list \<Rightarrow> string list
    \<Rightarrow> cell list \<Rightarrow> (string \<times> cell list) list \<Rightarrow> error + dataset" where
  "tob_build P G L us column_names time columns =
     bind_err (from_dataframe (TIME P) time columns) (\<lambda>ds0.
     bind_err (tob_prepare P G us column_names ds0) (\<lambda>ds3.
     bind_err (tob_time P L ds3) (fill_metadata P)))"

definition TobReader_read :: "ctdparams \<Rightarrow> gsw \<Rightarrow> parsers \<Rightarrow> tob \<Rightarrow> error + dataset" where
  "TobReader_read P G L f =
     (case first_index (prefix ''; Datasets'') (tob_lines f) of
        None \<Rightarrow> Inl (ValueError ''Line with column names not found in the file.'')
      | Some h \<Rightarrow>
          if \<not> h + 1 < length (tob_lines f) then Inl IndexError
          else
            (let column_names = tl (split_ws (strip (tob_lines f ! h)));
                 us = None # map Some (tl (split_ws (strip
                        (filter (\<lambda>c. c \<noteq> CHR ''['' \<and> c \<noteq> CHR '']'') (tob_lines f ! (h + 1))))));
                 frame = zip column_names (tob_columns f)
             in case (map_of frame ''IntD'', map_of frame ''IntT'') of
                  (Some ds, Some ts) \<Rightarrow>
                    tob_build P G L us column_names (combine_dates L ds ts)
                      (map (\<lambda>(k, xs). (k, infer_column L xs))
                           (filter (\<lambda>(k, xs). k \<noteq> ''IntD'' \<and> k \<noteq> ''IntT'') frame))
                | _ \<Rightarrow> Inl (ValueError ''Missing column provided to parse_dates'')))"

section \<open>A registry to run the readers with\<close>

text \<open>
  Modelled from the spec: the module \<^verbatim>\<open>ctd_tools.ctd_parameters\<close> is not among the
  sources. The canonical keys are the ones the specification names (time, pressure,
  depth, temperature, salinity, conductivity, latitude, longitude), spelled as the
  literals of \<^verbatim>\<open>reader.py\<close> spell them; the four time channels carry the names of
  their constants; the alias lists and the default metadata are a small sample of
  such a registry (one Sea-Bird channel name per key, the default long name
  \<open>Temperature\<close> of the specification). It is only used to run the readers on
  concrete files.
\<close>

definition example_registry :: ctdparams where
  "example_registry =
     \<lparr>TIME = ''time'', TIME_J = ''timeJ'', TIME_Q = ''timeQ'', TIME_N = ''timeN'',
      TIME_S = ''timeS'', PRESSURE = ''pressure'', DEPTH = ''depth'',
      LATITUDE = ''latitude'', LONGITUDE = ''longitude'', TEMPERATURE = ''temperature'',
      SALINITY = ''salinity'', CONDUCTIVITY = ''conductivity'',
      SPEED_OF_SOUND = ''speed_of_sound'',
      POWER_SUPPLY_INPUT_VOLTAGE = ''power_supply_input_voltage'',
      default_mappings =
        [(''temperature'', [''t090C'', ''Temperature'']),
         (''salinity'', [''sal00'']),
         (''conductivity'', [''c0mS/cm'']),
         (''pressure'', [''prDM'', ''Pressure'']),
         (''depth'', [''depSM'']),
         (''latitude'', [''latitude'']),
         (''longitude'', [''longitude'']),
         (''timeJ'', [''timeJ'']),
         (''timeQ'', [''timeQ'']),
         (''timeN'', [''timeN'']),
         (''timeS'', [''timeS''])],
      metadata =
        [(''temperature'', [(''long_name'', ''Temperature''), (''units'', ''degC''),
                            (''standard_name'', ''sea_water_temperature'')]),
         (''pressure'', [(''long_name'', ''Pressure''), (''units'', ''dbar'')]),
         (''salinity'', [(''long_name'', ''Salinity'')]),
         (''depth'', [(''long_name'', ''Depth''), (''units'', ''m'')])],
      rename_list = []\<rparr>"

text \<open>The library functions are parameters; these stand-ins let a reader run:
  \<^verbatim>\<open>gsw\<close> functions that keep the length of their first argument, and parsers
  that know two timestamps and two numbers.\<close>

definition example_gsw :: gsw where
  "example_gsw =
     \<lparr>z_from_p = (\<lambda>p la. map (\<lambda>c. case c of Num x \<Rightarrow> Num (- x) | _ \<Rightarrow> NaN) p),
      rho = (\<lambda>s t p. map (\<lambda>c. Num 1025) s),
      pt0_from_t = (\<lambda>s t p. t)\<rparr>"

definition example_parsers :: parsers where
  "example_parsers =
     \<lparr>strptime = (\<lambda>s. if s = ''2020-01-01 00:00:00.0'' then Some 1577836800
                      else if s = ''2020-01-01 00:00:01.0'' then Some 1577836801 else None),
      py_float = (\<lambda>s. if s = ''1.5'' then Some (3 / 2) else if s = ''10'' then Some 10
                      else if s = ''54'' then Some 54 else None),
      parse_datetime = (\<lambda>s. if s = ''01.01.2020 00:00:00'' then Some 1577836800
                            else if s = ''01.01.2020 00:00:01'' then Some 1577836801 else None)\<rparr>"

section \<open>Observations and example files\<close>

text \<open>What a test reads off the result of a reader: the names of the variables, and
  the values of one of them.\<close>

definition result_names :: "error + dataset \<Rightarrow> error + string list" where
  "result_names r = bind_err r (\<lambda>ds. Inr (keys (variables ds)))"

definition result_vals :: "string \<Rightarrow> error + dataset \<Rightarrow> error + cell list" where
  "result_vals k r = bind_err r (\<lambda>ds. bind_err (getitem (variables ds) k) (\<lambda>v. Inr (vals v)))"

text \<open>A cast with elapsed time, pressure and temperature; one temperature sample is
  the bad flag the header declares.\<close>

definition example_cnv :: cnv where
  "example_cnv =
     \<lparr>channels = [[(''name'', ''timeS'')], [(''name'', ''prDM'')], [(''name'', ''t090C'')]],
      cnv_data = [(''timeS'', [Num 0, Num 1]), (''prDM'', [Num 10, Num 11]),
                  (''t090C'', [Num (- 9999), Num 5])],
      cnv_names = [(''timeS'', ''Time, Elapsed [seconds]''), (''prDM'', ''Pressure, Digiquartz [db]''),
                   (''t090C'', ''Temperature [ITS-90, deg C]'')],
      cnv_units = [(''timeS'', ''seconds''), (''prDM'', ''db''), (''t090C'', ''ITS-90, deg C'')],
      lat = Some 54, lon = Some 8, date = (2020, 1, 1, 0, 0, 0),
      header = [''# interval = seconds: 0.25'', ''# bad_flag = -9999'']\<rparr>"

text \<open>A cast with elapsed time and pressure, without a temperature channel.\<close>

definition example_cnv_no_temperature :: cnv where
  "example_cnv_no_temperature =
     \<lparr>channels = [[(''name'', ''timeS'')], [(''name'', ''prDM'')]],
      cnv_data = [(''timeS'', [Num 0, Num 1]), (''prDM'', [Num 10, Num 11])],
      cnv_names = [(''timeS'', ''Time, Elapsed [seconds]''), (''prDM'', ''Pressure, Digiquartz [db]'')],
      cnv_units = [(''timeS'', ''seconds''), (''prDM'', ''db'')],
      lat = Some 54, lon = Some 8, date = (2020, 1, 1, 0, 0, 0),
      header = []\<rparr>"

text \<open>A cast whose only time channel is seconds since 1970.\<close>

definition example_cnv_timeN :: cnv where
  "example_cnv_timeN =
     \<lparr>channels = [[(''name'', ''timeN'')], [(''name'', ''prDM'')]],
      cnv_data = [(''timeN'', [Num 1577836800, Num 1577836801]), (''prDM'', [Num 10, Num 11])],
      cnv_names = [(''timeN'', ''Time, NMEA [seconds]''), (''prDM'', ''Pressure, Digiquartz [db]'')],
      cnv_units = [(''timeN'', ''seconds''), (''prDM'', ''db'')],
      lat = Some 54, lon = Some 8, date = (2020, 1, 1, 0, 0, 0),
      header = []\<rparr>"

text \<open>A CSV file with the columns time, pressure, depth and temperature, and two
  rows; it has no latitude and no longitude column.\<close>

definition example_csv_no_position :: "(string \<times> string) list list" where
  "example_csv_no_position =
     [[(''time'', ''2020-01-01 00:00:00.0''), (''pressure'', ''10''), (''depth'', ''10''),
       (''temperature'', ''1.5'')],
      [(''time'', ''2020-01-01 00:00:01.0''), (''pressure'', ''10''), (''depth'', ''10''),
       (''temperature'', ''1.5'')]]"

text \<open>A cast with elapsed time, pressure, temperature and salinity.\<close>

definition example_cnv_salinity :: cnv where
  "example_cnv_salinity =
     \<lparr>channels = [[(''name'', ''timeS'')], [(''name'', ''prDM'')], [(''name'', ''t090C'')],
                  [(''name'', ''sal00'')]],
      cnv_data = [(''timeS'', [Num 0, Num 1]), (''prDM'', [Num 10, Num 11]),
                  (''t090C'', [Num 4, Num 5]), (''sal00'', [Num 35, Num 35])],
      cnv_names = [(''timeS'', ''Time, Elapsed [seconds]''), (''prDM'', ''Pressure, Digiquartz [db]''),
                   (''t090C'', ''Temperature [ITS-90, deg C]''), (''sal00'', ''Salinity, Practical [PSU]'')],
      cnv_units = [(''timeS'', ''seconds''), (''prDM'', ''db''), (''t090C'', ''ITS-90, deg C''),
                   (''sal00'', ''PSU'')],
      lat = Some 54, lon = Some 8, date = (2020, 1, 1, 0, 0, 0),
      header = []\<rparr>"

text \<open>A TOB file with pressure, temperature, conductivity and salinity, and two
  rows.\<close>

definition example_tob :: tob where
  "example_tob =
     \<lparr>tob_lines =
        [''; Datasets IntD IntT Press Temp Cond SALIN SOUND Vbatt SIGMA'',
         '';          [Date] [Time] [dbar] [degC] [mS/cm] [PSU] [m/s] [V] [kg/m3]'',
         [],
         ''  10 01.01.2020 00:00:00 10 1.5 10 10 10 10 10'',
         ''  10 01.01.2020 00:00:01 10 1.5 10 10 10 10 10''],
      tob_columns =
        [[''10'', ''10''], [''01.01.2020'', ''01.01.2020''], [''00:00:00'', ''00:00:01''],
         [''10'', ''10''], [''1.5'', ''1.5''], [''10'', ''10''], [''10'', ''10''],
         [''10'', ''10''], [''10'', ''10''], [''10'', ''10'']]\<rparr>"







text \<open>
  What the generic pass needs of the registry to be repeatable: its keys are
  distinct (it is a dict), and, read without case, no alias of a key is an alias of
  another key or is another key.
\<close>

definition registry_wf :: "ctdparams \<Rightarrow> bool" where
  "registry_wf P \<longleftrightarrow>
     distinct (keys (default_mappings P)) \<and>
     (\<forall>(A, as) \<in> set (default_mappings P). \<forall>(B, bs) \<in> set (default_mappings P).
        A \<noteq> B \<longrightarrow> (\<forall>a \<in> set as. lower a \<noteq> lower B \<and> (\<forall>b \<in> set bs. lower a \<noteq> lower b)))"

text \<open>The alias the inner loop of \<^const>\<open>rename_step\<close> stops at.\<close>

definition pick_alias :: "string list \<Rightarrow> string \<Rightarrow> string list \<Rightarrow> string option" where
  "pick_alias vs standard_name aliases =
     find (\<lambda>alias. lower alias \<in> set (keys (ds_vars_lower vs)) \<and> standard_name \<notin> set vs) aliases"

text \<open>A dataset with the variable \<^verbatim>\<open>a\<close> on the time index, and a caller's mapping
  that names \<^verbatim>\<open>a\<close> as \<^verbatim>\<open>b\<close> and \<^verbatim>\<open>b\<close> as \<^verbatim>\<open>c\<close>.\<close>

definition example_dataset :: dataset where
  "example_dataset =
     \<lparr>variables = [(''time'', \<lparr>dims = [''time''], vals = [Stamp 0, Stamp 1], attrs = []\<rparr>),
                   (''a'', \<lparr>dims = [''time''], vals = [Num 4, Num 5], attrs = []\<rparr>)],
      coord_names = [''time''], ds_attrs = []\<rparr>"

definition example_mapping :: "(string, string) dict" where
  "example_mapping = [(''c'', ''b''), (''b'', ''a'')]"

text \<open>A dataset with a variable under an alias (\<^verbatim>\<open>Temperature\<close>) and one under its
  canonical key (\<^verbatim>\<open>pressure\<close>).\<close>

definition example_dataset_alias :: dataset where
  "example_dataset_alias =
     \<lparr>variables = [(''time'', \<lparr>dims = [''time''], vals = [Stamp 0, Stamp 1], attrs = []\<rparr>),
                   (''Temperature'', \<lparr>dims = [''time''], vals = [Num 4, Num 5], attrs = []\<rparr>),
                   (''pressure'', \<lparr>dims = [''time''], vals = [Num 10, Num 11], attrs = []\<rparr>)],
      coord_names = [''time''], ds_attrs = []\<rparr>"

text \<open>The first variable of the dataset is \<open>k\<close> and holds \<open>time\<close>.\<close>

definition first_var :: "dataset \<Rightarrow> string \<Rightarrow> cell list \<Rightarrow> bool" where
  "first_var ds k time \<longleftrightarrow> (\<exists>v rest. variables ds = (k, v) # rest \<and> vals v = time)"

text \<open>The dataset with the values of its first variable replaced: two frames that
  differ in their index only give two such datasets.\<close>

definition with_time :: "cell list \<Rightarrow> dataset \<Rightarrow> dataset" where
  "with_time xs ds =
     (case variables ds of
        [] \<Rightarrow> ds
      | (k, v) # rest \<Rightarrow> ds\<lparr>variables := (k, v\<lparr>vals := xs\<rparr>) # rest\<rparr>)"


text \<open>A registry in which two keys share the alias \<^verbatim>\<open>sal\<close>, and a dataset with the
  variables \<^verbatim>\<open>sal\<close> and \<^verbatim>\<open>psal\<close>: what \<^const>\<open>registry_wf\<close> excludes.\<close>

definition overlapping_registry :: ctdparams where
  "overlapping_registry =
     example_registry\<lparr>default_mappings :=
       [(''salinity'', [''sal'', ''psal'']), (''conductivity'', [''sal''])]\<rparr>"

definition example_dataset_sal :: dataset where
  "example_dataset_sal =
     \<lparr>variables = [(''time'', \<lparr>dims = [''time''], vals = [Stamp 0, Stamp 1], attrs = []\<rparr>),
                   (''sal'', \<lparr>dims = [''time''], vals = [Num 35, Num 35], attrs = []\<rparr>),
                   (''psal'', \<lparr>dims = [''time''], vals = [Num 35, Num 35], attrs = []\<rparr>)],
      coord_names = [''time''], ds_attrs = []\<rparr>"

section \<open>Required parameters are not enforced\<close>

lemma validate_never_raises:
  "truthy (TIME P) \<Longrightarrow> truthy (DEPTH P) \<Longrightarrow> validate_necessary_parameters P names entity = Inr ()"
  by (simp add: validate_necessary_parameters_def)

lemma NetCdfReader_accepts:
  "truthy (TIME P) \<Longrightarrow> truthy (DEPTH P) \<Longrightarrow>
   NetCdfReader P file opened = Inr \<lparr>input_file = file, data = Some opened, mapping = None\<rparr>"
  by (simp add: NetCdfReader_def validate_never_raises bind_err_def)

text \<open>
  C1. The claim: a reader that validates (CNV, NetCDF, CSV) raises the validation
  error when the resolved data has no time channel, or neither pressure nor depth,
  and exposes no dataset. The code does not: the two tests of
  \<^const>\<open>validate_necessary_parameters\<close> are false as soon as the constants \<^verbatim>\<open>TIME\<close>
  and \<^verbatim>\<open>DEPTH\<close> are non-empty strings (\<open>validate_never_raises\<close>). Here a NetCDF
  file whose only variable is \<^verbatim>\<open>temperature\<close> is read: the reader is constructed and
  \<^const>\<open>get_data\<close> returns that dataset.
\<close>

theorem netcdf_without_required_parameters_is_exposed:
  "map_sum id get_data
     (NetCdfReader example_registry ''profile.nc''
        \<lparr>variables = [(''temperature'', \<lparr>dims = [''obs''], vals = [Num 4], attrs = []\<rparr>)],
         coord_names = [], ds_attrs = []\<rparr>)
   = Inr (Some \<lparr>variables = [(''temperature'', \<lparr>dims = [''obs''], vals = [Num 4], attrs = []\<rparr>)],
               coord_names = [], ds_attrs = []\<rparr>)"
  by (simp add: NetCdfReader_def validate_necessary_parameters_def bind_err_def truthy_def
      example_registry_def get_data_def)

section \<open>Metadata priority\<close>




section \<open>Running the CNV reader\<close>

lemmas cnv_eval =
  CnvReader_def CnvReader_read_def example_registry_def example_gsw_def map_channels_def channel_names_def
  keys_def validate_necessary_parameters_def truthy_def bind_err_def getitem_def
  cnv_time_coords_def cnv_depth_def first_of_def opt_cell_def get_xarray_dataset_template_def
  cnv_derive_def assign_data_for_key_to_xarray_dataset_def ds_setitem_def dim_size_def
  assign_metadata_for_key_to_xarray_dataset_def assign_metadata_def fill_defaults_def clean_label_def
  fill_metadata_def data_vars_def coords_def apply_bad_flag_def where_ne_def get_bad_flag_def
  get_scan_interval_in_seconds_def match_line_def offset_datetime_def year_startdate_def
  datetime_def days_from_civil_def elapsed_seconds_since_jan_1970_to_datetime_def
  elapsed_seconds_since_jan_2000_to_datetime_def result_vals_def result_names_def get_data_def
  strip_def isspace_def remove_all.simps Let_def

subsection \<open>Seconds since 1970\<close>

lemma cnv_time_coords_TIME_N:
  assumes "TIME_J P \<notin> set (keys (xarray_data cols))" "TIME_Q P \<notin> set (keys (xarray_data cols))"
    and "TIME_N P \<in> set (keys (xarray_data cols))"
  shows "cnv_time_coords P c cols = Inl (KeyError (TIME_Q P))"
proof -
  have "map_of (xarray_data cols) (TIME_Q P) = None"
    using assms(2) by (simp add: keys_def map_of_eq_None_iff)
  then show ?thesis
    using assms by (simp add: cnv_time_coords_def Let_def getitem_def bind_err_def)
qed

text \<open>
  C3. The claim: when seconds since 1970 is the first time channel present, each
  element of the time coordinate is the 1970 epoch plus the value of that channel.
  The branch of \<^verbatim>\<open>TIME_N\<close> iterates over \<^verbatim>\<open>xarray_data[ctdparams.TIME_Q]\<close>, a key
  that is absent whenever that branch is reached (\<open>cnv_time_coords_TIME_N\<close>). Here
  a cast with the channels \<^verbatim>\<open>timeN\<close> and \<^verbatim>\<open>prDM\<close> is read: the mapping resolves
  \<^verbatim>\<open>timeN\<close>, and construction ends with \<^verbatim>\<open>KeyError\<close> for \<^verbatim>\<open>timeQ\<close>.
\<close>

theorem cnv_timeN_raises_KeyError:
  "map_channels example_registry (channel_names example_cnv_timeN) []
     = [(''pressure'', ''prDM''), (''timeN'', ''timeN'')]
   \<and> fst (CnvReader example_registry example_gsw ''2024-01-01T00:00:00'' ''cast.cnv'' example_cnv_timeN None [])
     = Inl (KeyError ''timeQ'')"
  by (simp add: cnv_eval example_cnv_timeN_def)

subsection \<open>The bad flag\<close>

lemma where_ne_no_text:
  "\<forall>c \<in> set (vals v). \<not> is_text c \<Longrightarrow> where_ne flag v = v"
proof -
  assume a: "\<forall>c \<in> set (vals v). \<not> is_text c"
  have "\<And>c. c \<in> set (vals v) \<Longrightarrow> cell_ne_str c flag"
  proof -
    fix c assume "c \<in> set (vals v)"
    with a have "\<not> is_text c" by blast
    then show "cell_ne_str c flag" by (cases c) (simp_all add: is_text_def)
  qed
  then have "map (\<lambda>c. if cell_ne_str c flag then c else NaN) (vals v) = vals v"
    by (simp add: map_idI)
  then show ?thesis by (simp add: where_ne_def)
qed

lemma apply_bad_flag_no_text:
  assumes "\<forall>(k, v) \<in> set (variables ds). \<forall>c \<in> set (vals v). \<not> is_text c"
  shows "apply_bad_flag flag ds = ds"
proof (cases flag)
  case None
  then show ?thesis by (simp add: apply_bad_flag_def)
next
  case (Some f)
  have "map (\<lambda>(k, v). if k \<in> set (data_vars ds) then (k, where_ne f v) else (k, v)) (variables ds)
        = variables ds"
    using assms by (intro map_idI) (auto simp: where_ne_no_text)
  then show ?thesis using Some by (simp add: apply_bad_flag_def)
qed

text \<open>
  C4. The claim: with a bad flag declared in the header, every occurrence of that
  value in every variable becomes NaN. The flag is kept as the text of the header
  line and compared with the numbers of the columns, so no element is ever equal to
  it and a dataset of numbers is returned as it is (\<open>apply_bad_flag_no_text\<close>). Here
  the header declares \<^verbatim>\<open>-9999\<close> and the temperature column holds \<open>-9999\<close>: it is
  still there in the dataset of the reader.
\<close>

theorem cnv_bad_flag_is_not_replaced:
  "get_bad_flag (header example_cnv) = Some ''-9999''
   \<and> result_vals ''temperature''
        (snd (CnvReader_read example_registry example_gsw ''2024-01-01T00:00:00'' example_cnv []))
      = Inr [Num (- 9999), Num 5]"
  by (simp add: cnv_eval example_cnv_def)

subsection \<open>The default mapping\<close>

lemma example_cnv_no_temperature_read:
  "\<exists>ds. CnvReader_read example_registry example_gsw ''2024-01-01T00:00:00'' example_cnv_no_temperature []
         = ([(''pressure'', ''prDM''), (''timeS'', ''timeS'')], Inr ds)"
  by (simp add: cnv_eval example_cnv_no_temperature_def)

text \<open>
  C9. The claim: the dataset of a \<^verbatim>\<open>CnvReader\<close> constructed without a mapping does not
  depend on the readers constructed before it. The default mapping is one dict
  shared by all such calls, and \<^verbatim>\<open>__read\<close> writes the resolved channels into it.
  The cast without a temperature channel is read successfully on its own; after the
  cast with temperature has been read, the shared dict maps \<^verbatim>\<open>temperature\<close> to
  \<^verbatim>\<open>t090C\<close>, and the same construction ends with \<^verbatim>\<open>KeyError\<close>.
\<close>

theorem cnv_default_mapping_is_shared:
  "(\<exists>self. fst (CnvReader example_registry example_gsw ''2024-01-01T00:00:00'' ''b.cnv''
                  example_cnv_no_temperature None []) = Inr self)
   \<and> snd (CnvReader example_registry example_gsw ''2024-01-01T00:00:00'' ''a.cnv'' example_cnv None [])
       = [(''temperature'', ''t090C''), (''pressure'', ''prDM''), (''timeS'', ''timeS'')]
   \<and> fst (CnvReader example_registry example_gsw ''2024-01-01T00:00:00'' ''b.cnv''
             example_cnv_no_temperature None
             (snd (CnvReader example_registry example_gsw ''2024-01-01T00:00:00'' ''a.cnv'' example_cnv None [])))
       = Inl (KeyError ''t090C'')"
proof -
  have a: "snd (CnvReader example_registry example_gsw ''2024-01-01T00:00:00'' ''a.cnv'' example_cnv None [])
       = [(''temperature'', ''t090C''), (''pressure'', ''prDM''), (''timeS'', ''timeS'')]"
    by (simp add: CnvReader_def CnvReader_read_def example_registry_def map_channels_def
        channel_names_def keys_def example_cnv_def Let_def)
  have b: "\<exists>self. fst (CnvReader example_registry example_gsw ''2024-01-01T00:00:00'' ''b.cnv''
                  example_cnv_no_temperature None []) = Inr self"
    using example_cnv_no_temperature_read by (auto simp: CnvReader_def bind_err_def)
  have c: "fst (CnvReader example_registry example_gsw ''2024-01-01T00:00:00'' ''b.cnv''
             example_cnv_no_temperature None
             [(''temperature'', ''t090C''), (''pressure'', ''prDM''), (''timeS'', ''timeS'')])
       = Inl (KeyError ''t090C'')"
    by (simp add: cnv_eval example_cnv_no_temperature_def)
  show ?thesis using a b c by simp
qed

section \<open>Basic facts\<close>

lemma bind_err_Inr:
  "bind_err m f = Inr y \<longleftrightarrow> (\<exists>x. m = Inr x \<and> f x = Inr y)"
  by (cases m) (simp_all add: bind_err_def)

lemma bind_err_Inl [simp]: "bind_err (Inl e) f = Inl e"
  by (simp add: bind_err_def)

lemma bind_err_Inr_simp [simp]: "bind_err (Inr x) f = f x"
  by (simp add: bind_err_def)

lemma keys_update_present:
  "k \<in> set (keys d) \<Longrightarrow> keys (AList.update k v d) = keys d"
  by (simp add: keys_def update_keys)

lemma getitem_Inr_keys:
  "getitem d k = Inr v \<Longrightarrow> k \<in> set (keys d)"
  by (auto simp: getitem_def keys_def split: option.splits dest: map_of_SomeD intro: rev_image_eqI)

lemma getitem_missing:
  "k \<notin> set (keys d) \<Longrightarrow> getitem d k = Inl (KeyError k)"
  by (simp add: getitem_def keys_def map_of_eq_None_iff[THEN iffD2])

lemma getitem_present:
  "k \<in> set (keys d) \<Longrightarrow> \<exists>v. getitem d k = Inr v"
  by (cases "map_of d k") (auto simp: getitem_def keys_def map_of_eq_None_iff)

section \<open>The columns the CSV reader needs\<close>

lemma convert_floats_keys:
  "convert_floats P L ks d = Inr d' \<Longrightarrow> keys d' = keys d"
proof (induction ks arbitrary: d)
  case Nil
  then show ?case by simp
next
  case (Cons key ks)
  show ?case
  proof (cases "key \<noteq> TIME P \<and> key \<in> set (keys (default_mappings P))")
    case True
    with Cons.prems obtain xs ys where xs: "getitem d key = Inr xs"
      and r: "convert_floats P L ks (AList.update key ys d) = Inr d'"
      by (auto simp: bind_err_Inr)
    from Cons.IH[OF r] getitem_Inr_keys[OF xs] show ?thesis
      by (simp add: keys_update_present)
  next
    case False
    with Cons.prems have "convert_floats P L ks d = Inr d'" by auto
    then show ?thesis by (rule Cons.IH)
  qed
qed

lemma CsvReader_convert_keys:
  assumes "CsvReader_convert P L rows = Inr d"
  shows "keys d = keys (column_lists rows) \<and> TIME P \<in> set (keys d)"
proof -
  from assms obtain stamps times where
    s: "getitem (column_lists rows) (TIME P) = Inr stamps" and
    c: "convert_floats P L (keys (AList.update (TIME P) times (column_lists rows)))
          (AList.update (TIME P) times (column_lists rows)) = Inr d"
    by (auto simp: CsvReader_convert_def Let_def bind_err_Inr)
  have t: "TIME P \<in> set (keys (column_lists rows))" using s by (rule getitem_Inr_keys)
  from convert_floats_keys[OF c] t show ?thesis by (simp add: keys_update_present)
qed

lemma csv_template_missing:
  assumes "DEPTH P \<notin> set (keys d) \<or> LATITUDE P \<notin> set (keys d) \<or> LONGITUDE P \<notin> set (keys d)"
  shows "\<exists>e. csv_template P now d = Inl e"
proof (rule ccontr)
  assume "\<not> (\<exists>e. csv_template P now d = Inl e)"
  then obtain ds where "csv_template P now d = Inr ds" by (cases "csv_template P now d") auto
  then obtain da la lo where "getitem d (DEPTH P) = Inr da" "getitem d (LATITUDE P) = Inr la"
      "getitem d (LONGITUDE P) = Inr lo"
    by (auto simp: csv_template_def bind_err_Inr)
  then show False using assms by (auto dest: getitem_Inr_keys)
qed

text \<open>
  C10. A CSV file without a depth, a latitude or a longitude column is never read:
  construction ends with an error, so there is no reader and no dataset; and when
  the steps before the template (validation, time parsing, float conversion) have
  succeeded, it is the construction of the template that fails, on the arguments
  \<^verbatim>\<open>data[ctdparams.DEPTH]\<close>, \<^verbatim>\<open>data[ctdparams.LATITUDE][0]\<close>,
  \<^verbatim>\<open>data[ctdparams.LONGITUDE][0]\<close>.
\<close>

theorem csv_requires_depth_latitude_longitude:
  assumes "DEPTH P \<notin> set (keys (column_lists rows)) \<or> LATITUDE P \<notin> set (keys (column_lists rows))
           \<or> LONGITUDE P \<notin> set (keys (column_lists rows))"
  shows "(\<exists>e. CsvReader P L now file rows = Inl e)
         \<and> (\<forall>d. CsvReader_convert P L rows = Inr d \<longrightarrow> (\<exists>e. csv_template P now d = Inl e))"
proof -
  have tmpl: "\<exists>e. csv_template P now d = Inl e" if "CsvReader_convert P L rows = Inr d" for d
    using CsvReader_convert_keys[OF that] assms by (intro csv_template_missing) simp
  have "\<exists>e. CsvReader P L now file rows = Inl e"
  proof (cases "CsvReader_convert P L rows")
    case (Inl e)
    then show ?thesis by (simp add: CsvReader_def CsvReader_read_def)
  next
    case (Inr d)
    from tmpl[OF Inr] obtain e where "csv_template P now d = Inl e" by blast
    then show ?thesis using Inr by (simp add: CsvReader_def CsvReader_read_def)
  qed
  then show ?thesis using tmpl by blast
qed

lemmas csv_eval =
  CsvReader_def CsvReader_read_def CsvReader_convert_def column_lists_def append_value_def
  example_registry_def example_parsers_def keys_def validate_necessary_parameters_def truthy_def
  getitem_def csv_template_def element0_def Let_def

theorem csv_requires_depth_latitude_longitude_witness:
  "LATITUDE example_registry \<notin> set (keys (column_lists example_csv_no_position))
   \<and> CsvReader_convert example_registry example_parsers example_csv_no_position
       = Inr [(''time'', [Stamp 1577836800, Stamp 1577836801]), (''pressure'', [Num 10, Num 10]),
              (''depth'', [Num 10, Num 10]), (''temperature'', [Num (3 / 2), Num (3 / 2)])]
   \<and> CsvReader example_registry example_parsers ''2024-01-01T00:00:00'' ''cast.csv'' example_csv_no_position
       = Inl (KeyError ''latitude'')"
  using csv_requires_depth_latitude_longitude
    [of example_registry example_csv_no_position example_parsers "''2024-01-01T00:00:00''" "''cast.csv''"]
  by (simp add: csv_eval example_csv_no_position_def)

section \<open>Derived quantities\<close>

lemma set_keys_update: "set (keys (AList.update k v d)) = insert k (set (keys d))"
  using dom_update[of k v d] by (simp add: keys_def)

lemma map_of_Some_keys: "map_of d k = Some v \<Longrightarrow> k \<in> set (keys d)"
  by (auto simp: keys_def dest: map_of_SomeD intro: rev_image_eqI)

lemma ds_setitem_names:
  "ds_setitem ds key d xs ats = Inr ds' \<Longrightarrow>
   set (keys (variables ds')) = insert key (set (keys (variables ds)))"
  by (auto simp: ds_setitem_def Let_def set_keys_update split: if_splits)

lemma assign_metadata_for_key_names:
  "assign_metadata_for_key_to_xarray_dataset P ds key label unit = Inr ds' \<Longrightarrow>
   keys (variables ds') = keys (variables ds)"
  by (auto simp: assign_metadata_for_key_to_xarray_dataset_def keys_update_present map_of_Some_keys
      split: option.splits)

lemma assign_metadata_all_names:
  "assign_metadata_all P ks ds = Inr ds' \<Longrightarrow> keys (variables ds') = keys (variables ds)"
proof (induction ks arbitrary: ds)
  case Nil
  then show ?case by simp
next
  case (Cons k ks)
  then obtain ds1 where a: "assign_metadata_for_key_to_xarray_dataset P ds k None None = Inr ds1"
    and b: "assign_metadata_all P ks ds1 = Inr ds'"
    by (auto split: sum.splits)
  from Cons.IH[OF b] assign_metadata_for_key_names[OF a] show ?case by simp
qed

lemma fill_metadata_names:
  "fill_metadata P ds = Inr ds' \<Longrightarrow> keys (variables ds') = keys (variables ds)"
  unfolding fill_metadata_def by (rule assign_metadata_all_names)

lemma assign_metadata_for_key_ok:
  assumes "key \<in> set (keys (variables ds))"
  shows "\<exists>ds'. assign_metadata_for_key_to_xarray_dataset P ds key l u = Inr ds'
           \<and> keys (variables ds') = keys (variables ds)"
proof -
  from assms obtain v where "map_of (variables ds) key = Some v"
    by (cases "map_of (variables ds) key") (auto simp: keys_def map_of_eq_None_iff)
  then show ?thesis
    using assms by (simp add: assign_metadata_for_key_to_xarray_dataset_def keys_update_present)
qed

lemma assign_metadata_all_ok:
  "set ks \<subseteq> set (keys (variables ds)) \<Longrightarrow>
   \<exists>ds'. assign_metadata_all P ks ds = Inr ds' \<and> keys (variables ds') = keys (variables ds)"
proof (induction ks arbitrary: ds)
  case Nil
  then show ?case by simp
next
  case (Cons k ks)
  then have "k \<in> set (keys (variables ds))" by simp
  from assign_metadata_for_key_ok[OF this, of P None None] obtain ds1 where
    a: "assign_metadata_for_key_to_xarray_dataset P ds k None None = Inr ds1"
    and b: "keys (variables ds1) = keys (variables ds)" by blast
  from Cons.prems b have "set ks \<subseteq> set (keys (variables ds1))" by simp
  from Cons.IH[OF this] a b show ?case by auto
qed

lemma fill_metadata_ok:
  "\<exists>ds'. fill_metadata P ds = Inr ds' \<and> keys (variables ds') = keys (variables ds)"
  unfolding fill_metadata_def
  by (rule assign_metadata_all_ok) (auto simp: data_vars_def coords_def)

lemma apply_bad_flag_names:
  "keys (variables (apply_bad_flag flag ds)) = keys (variables ds)"
  by (cases flag) (auto simp: apply_bad_flag_def keys_def)

lemma cnv_assign_names:
  "cnv_assign P cols ks ds = Inr ds' \<Longrightarrow>
   set (keys (variables ds')) = set (keys (variables ds)) \<union> set ks"
proof (induction ks arbitrary: ds)
  case Nil
  then show ?case by simp
next
  case (Cons k ks)
  from Cons.prems obtain xs ds1 label unit ds2 where
    a: "assign_data_for_key_to_xarray_dataset P ds k xs = Inr ds1" and
    b: "assign_metadata_for_key_to_xarray_dataset P ds1 k (Some label) (Some unit) = Inr ds2" and
    c: "cnv_assign P cols ks ds2 = Inr ds'"
    by (auto simp: bind_err_Inr)
  from a have "set (keys (variables ds1)) = insert k (set (keys (variables ds)))"
    unfolding assign_data_for_key_to_xarray_dataset_def by (rule ds_setitem_names)
  with assign_metadata_for_key_names[OF b] Cons.IH[OF c] show ?case by auto
qed

lemma cnv_derive_names:
  "cnv_derive P G cols ds = Inr ds' \<Longrightarrow>
   set (keys (variables ds')) = set (keys (variables ds)) \<union>
     (if TEMPERATURE P \<in> set (keys (xarray_data cols)) \<and> PRESSURE P \<in> set (keys (xarray_data cols))
         \<and> SALINITY P \<in> set (keys (xarray_data cols))
      then {''density'', ''potential_temperature''} else {})"
  by (auto simp: cnv_derive_def Let_def bind_err_Inr split: if_splits dest!: ds_setitem_names)

lemma template_names:
  "get_xarray_dataset_template P now ts depth la lo = Inr ds \<Longrightarrow>
   set (keys (variables ds)) = {''time'', ''depth'', ''latitude'', ''longitude''}"
  by (auto simp: get_xarray_dataset_template_def keys_def split: option.splits if_splits)

lemma collect_columns_keys:
  "collect_columns c items acc = Inr cols \<Longrightarrow>
   set (keys (xarray_data cols)) = set (keys (xarray_data acc)) \<union> fst ` set items"
proof (induction items arbitrary: acc)
  case Nil
  then show ?case by simp
next
  case (Cons kv items)
  obtain k v where kv: "kv = (k, v)" by (cases kv)
  from Cons.prems obtain xs name unit where
    r: "collect_columns c items
         \<lparr>xarray_data = AList.update k xs (xarray_data acc),
          xarray_labels = AList.update k name (xarray_labels acc),
          xarray_units = AList.update k unit (xarray_units acc),
          maxCount = Some (length xs)\<rparr> = Inr cols"
    by (auto simp: kv bind_err_Inr)
  from Cons.IH[OF r] show ?case by (auto simp: kv set_keys_update)
qed

lemma CnvReader_read_names:
  assumes "CnvReader_read P G now c m0 = (m, Inr ds)"
  shows "set (keys (variables ds)) =
     {''time'', ''depth'', ''latitude'', ''longitude''} \<union> set (keys m) \<union>
     (if TEMPERATURE P \<in> set (keys m) \<and> PRESSURE P \<in> set (keys m) \<and> SALINITY P \<in> set (keys m)
      then {''density'', ''potential_temperature''} else {})"
proof -
  from assms have m: "m = map_channels P (channel_names c) m0"
    by (simp add: CnvReader_read_def Let_def)
  from assms obtain cols ts depth ds0 ds1 ds2 ds3 where
    cols: "collect_columns c m \<lparr>xarray_data = [], xarray_labels = [], xarray_units = [], maxCount = None\<rparr>
             = Inr cols" and
    tmpl: "get_xarray_dataset_template P now ts depth (opt_cell (lat c)) (opt_cell (lon c)) = Inr ds0" and
    der: "cnv_derive P G cols ds0 = Inr ds1" and
    asg: "cnv_assign P cols (keys m) ds1 = Inr ds2" and
    fil: "fill_metadata P ds2 = Inr ds3" and
    ds: "ds = apply_bad_flag (get_bad_flag (header c)) ds3"
    by (auto simp: CnvReader_read_def Let_def m[symmetric] bind_err_Inr split: option.splits)
  have k: "set (keys (xarray_data cols)) = set (keys m)"
    using collect_columns_keys[OF cols] by (simp add: keys_def)
  show ?thesis
    unfolding ds apply_bad_flag_names fill_metadata_names[OF fil]
      cnv_assign_names[OF asg] cnv_derive_names[OF der] template_names[OF tmpl] k
    by auto
qed

lemmas tob_eval =
  TobReader_read_def tob_build_def tob_prepare_def example_registry_def example_gsw_def example_parsers_def split_ws_def strip_def
  isspace_def from_dataframe_def combine_dates_def infer_column_def keys_def set_attr_def
  ds_rename_def rename_name_def ds_dims_def tob_rename_def tob_depth_def tob_time_def ds_setitem_def
  dim_size_def fill_metadata_def data_vars_def coords_def truthy_def
  assign_metadata_for_key_to_xarray_dataset_def assign_metadata_def fill_defaults_def
  result_names_def result_vals_def getitem_def enumerate_eq_zip Let_def

lemma example_tob_names:
  "result_names (TobReader_read example_registry example_gsw example_parsers example_tob)
   = Inr [''time'', ''sample'', ''pressure'', ''temperature'', ''conductivity'', ''salinity'',
          ''speed_of_sound'', ''power_supply_input_voltage'', ''sigma'', ''depth'']"
  by (simp add: tob_eval example_tob_def)

text \<open>
  C5, as the claim states it: a dataset of any reader that has salinity, temperature
  and pressure contains \<^verbatim>\<open>density\<close> and \<^verbatim>\<open>potential_temperature\<close>. The TOB reader
  computes the depth only: the dataset of this TOB file has the three inputs and
  neither derived variable.
\<close>

theorem tob_has_no_derived_quantities:
  "result_names (TobReader_read example_registry example_gsw example_parsers example_tob)
   = Inr [''time'', ''sample'', ''pressure'', ''temperature'', ''conductivity'', ''salinity'',
          ''speed_of_sound'', ''power_supply_input_voltage'', ''sigma'', ''depth'']"
  by (rule example_tob_names)

text \<open>
  C5, amended: the CNV reader is the one that derives. When its mapping resolves
  temperature, pressure and salinity, the dataset it builds contains both derived
  variables; when the mapping has no salinity, the dataset contains \<^verbatim>\<open>density\<close>
  (or \<^verbatim>\<open>potential_temperature\<close>) only if the mapping itself has a key of that name.
  \<open>CnvReader_read_names\<close> gives all the names of the dataset.
\<close>

theorem cnv_derived_quantity_gating:
  assumes "CnvReader_read P G now c m0 = (m, Inr ds)"
  shows "(TEMPERATURE P \<in> set (keys m) \<and> PRESSURE P \<in> set (keys m) \<and> SALINITY P \<in> set (keys m)
            \<longrightarrow> ''density'' \<in> set (keys (variables ds))
                \<and> ''potential_temperature'' \<in> set (keys (variables ds)))
       \<and> (SALINITY P \<notin> set (keys m) \<and> ''density'' \<notin> set (keys m)
            \<longrightarrow> ''density'' \<notin> set (keys (variables ds)))
       \<and> (SALINITY P \<notin> set (keys m) \<and> ''potential_temperature'' \<notin> set (keys m)
            \<longrightarrow> ''potential_temperature'' \<notin> set (keys (variables ds)))"
  unfolding CnvReader_read_names[OF assms] by auto

theorem cnv_derived_quantity_gating_witness:
  "(\<exists>m ds. CnvReader_read example_registry example_gsw ''2024-01-01T00:00:00'' example_cnv_salinity []
             = (m, Inr ds)
     \<and> TEMPERATURE example_registry \<in> set (keys m) \<and> PRESSURE example_registry \<in> set (keys m)
     \<and> SALINITY example_registry \<in> set (keys m)
     \<and> ''density'' \<in> set (keys (variables ds))
     \<and> ''potential_temperature'' \<in> set (keys (variables ds)))
   \<and> (\<exists>m ds. CnvReader_read example_registry example_gsw ''2024-01-01T00:00:00''
                 example_cnv_no_temperature [] = (m, Inr ds)
     \<and> SALINITY example_registry \<notin> set (keys m)
     \<and> ''density'' \<notin> set (keys m) \<and> ''potential_temperature'' \<notin> set (keys m)
     \<and> ''density'' \<notin> set (keys (variables ds))
     \<and> ''potential_temperature'' \<notin> set (keys (variables ds)))"
proof -
  obtain m r where mr:
    "CnvReader_read example_registry example_gsw ''2024-01-01T00:00:00'' example_cnv_salinity [] = (m, r)"
    by (cases "CnvReader_read example_registry example_gsw ''2024-01-01T00:00:00'' example_cnv_salinity []")
  have m: "m = [(''temperature'', ''t090C''), (''salinity'', ''sal00''), (''pressure'', ''prDM''),
                (''timeS'', ''timeS'')]"
    using mr by (simp add: CnvReader_read_def example_registry_def map_channels_def channel_names_def
        keys_def example_cnv_salinity_def Let_def)
  have "\<exists>ds. r = Inr ds"
    using mr by (simp add: cnv_eval example_cnv_salinity_def) blast
  then obtain ds where r: "r = Inr ds" by blast
  have k: "TEMPERATURE example_registry \<in> set (keys m) \<and> PRESSURE example_registry \<in> set (keys m)
     \<and> SALINITY example_registry \<in> set (keys m)"
    by (simp add: m keys_def example_registry_def)
  from cnv_derived_quantity_gating[OF mr[unfolded r]] k mr r have first:
    "\<exists>m ds. CnvReader_read example_registry example_gsw ''2024-01-01T00:00:00'' example_cnv_salinity []
             = (m, Inr ds)
     \<and> TEMPERATURE example_registry \<in> set (keys m) \<and> PRESSURE example_registry \<in> set (keys m)
     \<and> SALINITY example_registry \<in> set (keys m)
     \<and> ''density'' \<in> set (keys (variables ds))
     \<and> ''potential_temperature'' \<in> set (keys (variables ds))"
    by blast
  from example_cnv_no_temperature_read obtain ds2 where r2:
    "CnvReader_read example_registry example_gsw ''2024-01-01T00:00:00'' example_cnv_no_temperature []
       = ([(''pressure'', ''prDM''), (''timeS'', ''timeS'')], Inr ds2)"
    by blast
  have k2: "SALINITY example_registry \<notin> set (keys [(''pressure'', ''prDM''), (''timeS'', ''timeS'')])
     \<and> ''density'' \<notin> set (keys [(''pressure'', ''prDM''), (''timeS'', ''timeS'')])
     \<and> ''potential_temperature'' \<notin> set (keys [(''pressure'', ''prDM''), (''timeS'', ''timeS'')])"
    by (simp add: keys_def example_registry_def)
  from cnv_derived_quantity_gating[OF r2] k2 r2 have second:
    "\<exists>m ds. CnvReader_read example_registry example_gsw ''2024-01-01T00:00:00''
                 example_cnv_no_temperature [] = (m, Inr ds)
     \<and> SALINITY example_registry \<notin> set (keys m)
     \<and> ''density'' \<notin> set (keys m) \<and> ''potential_temperature'' \<notin> set (keys m)
     \<and> ''density'' \<notin> set (keys (variables ds))
     \<and> ''potential_temperature'' \<notin> set (keys (variables ds))"
    by blast
  from first second show ?thesis by blast
qed

section \<open>Malformed timestamps\<close>







subsection \<open>The TOB reader and the values of its index\<close>

lemma keys_with_time [simp]: "keys (variables (with_time xs ds)) = keys (variables ds)"
  by (auto simp: with_time_def keys_def split: list.splits)

lemma coord_names_with_time [simp]: "coord_names (with_time xs ds) = coord_names ds"
  by (auto simp: with_time_def split: list.splits)






lemma ds_dims_with_time [simp]: "ds_dims (with_time xs ds) = ds_dims ds"
  by (auto simp: with_time_def ds_dims_def split: list.splits)

lemma keys_map_rename:
  "keys (map (\<lambda>(k, v). (f k, g k v)) xs) = map f (keys xs)"
  by (induction xs) (auto simp: keys_def)











lemma tob_rename_time [simp]: "rename_name (tob_rename P) ''time'' = ''time''"
  by (simp add: rename_name_def tob_rename_def)




lemma first_var_keys: "first_var ds k time \<Longrightarrow> k \<in> set (keys (variables ds))"
  by (auto simp: first_var_def keys_def)












subsection \<open>The two readers\<close>





section \<open>The time index of the RBR legacy reader\<close>















section \<open>The generic post-processing pass\<close>

lemma fold_lower_map_of:
  "map_of (fold (\<lambda>var d. AList.update (lower var) var d) vs d0) l = Some v \<Longrightarrow>
   (v \<in> set vs \<and> lower v = l) \<or> map_of d0 l = Some v"
proof (induction vs arbitrary: d0)
  case Nil
  then show ?case by simp
next
  case (Cons x xs)
  from Cons.IH[of "AList.update (lower x) x d0"] Cons.prems
  have "(v \<in> set xs \<and> lower v = l) \<or> map_of (AList.update (lower x) x d0) l = Some v" by simp
  then show ?case by (auto simp: update_conv' split: if_splits)
qed

lemma fold_lower_keys:
  "set (keys (fold (\<lambda>var d. AList.update (lower var) var d) vs d0)) = lower ` set vs \<union> set (keys d0)"
  by (induction vs arbitrary: d0) (auto simp: set_keys_update)

lemma ds_vars_lower_Some:
  "map_of (ds_vars_lower vs) l = Some v \<Longrightarrow> v \<in> set vs \<and> lower v = l"
  using fold_lower_map_of[of vs "[]" l v] by (simp add: ds_vars_lower_def)

lemma keys_Nil [simp]: "keys [] = []"
  by (simp add: keys_def)

lemma ds_vars_lower_keys: "set (keys (ds_vars_lower vs)) = lower ` set vs"
  by (simp add: ds_vars_lower_def fold_lower_keys)

lemma ds_vars_lower_the:
  assumes "l \<in> lower ` set vs"
  shows "\<exists>v. map_of (ds_vars_lower vs) l = Some v \<and> v \<in> set vs \<and> lower v = l"
proof -
  from assms have "l \<in> set (keys (ds_vars_lower vs))" by (simp add: ds_vars_lower_keys)
  then obtain v where "map_of (ds_vars_lower vs) l = Some v"
    by (cases "map_of (ds_vars_lower vs) l") (auto simp: keys_def map_of_eq_None_iff)
  with ds_vars_lower_Some[OF this] show ?thesis by blast
qed

lemma rename_step_pick:
  "rename_step vs (ds_vars_lower vs) (A, as) D =
     (case pick_alias vs A as of
        Some a \<Rightarrow> AList.update (the (map_of (ds_vars_lower vs) (lower a))) A D
      | None \<Rightarrow> D)"
  by (simp add: rename_step_def pick_alias_def)

lemma pick_alias_Some:
  assumes "pick_alias vs A as = Some a"
  shows "a \<in> set as \<and> A \<notin> set vs
         \<and> (\<exists>v. map_of (ds_vars_lower vs) (lower a) = Some v \<and> v \<in> set vs \<and> lower v = lower a)"
proof -
  from assms have "a \<in> set as" "lower a \<in> set (keys (ds_vars_lower vs))" "A \<notin> set vs"
    by (auto simp: pick_alias_def find_Some_iff)
  with ds_vars_lower_the[of "lower a" vs] show ?thesis by (simp add: ds_vars_lower_keys)
qed

lemma pick_alias_None:
  "pick_alias vs A as = None \<longleftrightarrow> (A \<in> set vs \<or> (\<forall>a \<in> set as. lower a \<notin> lower ` set vs))"
  by (auto simp: pick_alias_def find_None_iff ds_vars_lower_keys)

text \<open>Every entry of the rename dict comes from the alias picked for its key.\<close>

lemma rename_fold_origin:
  assumes "\<forall>V A. map_of D0 V = Some A \<longrightarrow>
             (\<exists>as a. (A, as) \<in> S \<and> pick_alias vs A as = Some a
                      \<and> map_of (ds_vars_lower vs) (lower a) = Some V)"
    and "set xs \<subseteq> S"
  shows "\<forall>V A. map_of (fold (rename_step vs (ds_vars_lower vs)) xs D0) V = Some A \<longrightarrow>
             (\<exists>as a. (A, as) \<in> S \<and> pick_alias vs A as = Some a
                      \<and> map_of (ds_vars_lower vs) (lower a) = Some V)"
  using assms
proof (induction xs arbitrary: D0)
  case Nil
  then show ?case by simp
next
  case (Cons x xs)
  obtain B bs where x: "x = (B, bs)" by (cases x)
  have "\<forall>V A. map_of (rename_step vs (ds_vars_lower vs) x D0) V = Some A \<longrightarrow>
             (\<exists>as a. (A, as) \<in> S \<and> pick_alias vs A as = Some a
                      \<and> map_of (ds_vars_lower vs) (lower a) = Some V)"
  proof (cases "pick_alias vs B bs")
    case None
    then show ?thesis using Cons.prems(1) by (simp add: x rename_step_pick)
  next
    case (Some b)
    from pick_alias_Some[OF Some] obtain v where
      v: "map_of (ds_vars_lower vs) (lower b) = Some v" by blast
    have "(B, bs) \<in> S" using Cons.prems(2) by (simp add: x)
    then show ?thesis
      using Cons.prems(1) Some v by (auto simp: x rename_step_pick update_conv')
  qed
  from Cons.IH[OF this] Cons.prems(2) show ?case by simp
qed

lemma rename_dict_origin:
  assumes "map_of (rename_dict_of P vs) V = Some A"
  shows "\<exists>as a. (A, as) \<in> set (default_mappings P) \<and> pick_alias vs A as = Some a
           \<and> map_of (ds_vars_lower vs) (lower a) = Some V"
  using rename_fold_origin[of "[]" "set (default_mappings P)" vs "default_mappings P"] assms
  by (simp add: rename_dict_of_def)

lemma registry_wf_distinct: "registry_wf P \<Longrightarrow> distinct (map fst (default_mappings P))"
  by (simp add: registry_wf_def keys_def)

lemma registry_wf_same_key:
  "registry_wf P \<Longrightarrow> (A, as) \<in> set (default_mappings P) \<Longrightarrow> (A, bs) \<in> set (default_mappings P)
   \<Longrightarrow> as = bs"
  using registry_wf_distinct eq_key_imp_eq_value by metis

lemma registry_wf_alias:
  "registry_wf P \<Longrightarrow> (A, as) \<in> set (default_mappings P) \<Longrightarrow> (B, bs) \<in> set (default_mappings P)
   \<Longrightarrow> A \<noteq> B \<Longrightarrow> a \<in> set as \<Longrightarrow> b \<in> set bs \<Longrightarrow> lower a \<noteq> lower b"
  unfolding registry_wf_def by blast

lemma registry_wf_key:
  "registry_wf P \<Longrightarrow> (A, as) \<in> set (default_mappings P) \<Longrightarrow> (B, bs) \<in> set (default_mappings P)
   \<Longrightarrow> A \<noteq> B \<Longrightarrow> a \<in> set as \<Longrightarrow> lower a \<noteq> lower B"
  unfolding registry_wf_def by blast

text \<open>With disjoint alias lists no entry of the rename dict is overwritten.\<close>

lemma rename_fold_persist:
  assumes "distinct (map fst xs)"
    and "\<And>A as B bs a b. (A, as) \<in> set xs \<Longrightarrow> (B, bs) \<in> set xs \<Longrightarrow> A \<noteq> B \<Longrightarrow>
           a \<in> set as \<Longrightarrow> b \<in> set bs \<Longrightarrow> lower a \<noteq> lower b"
    and "(A, as) \<in> set xs" "pick_alias vs A as = Some a"
  shows "map_of (fold (rename_step vs (ds_vars_lower vs)) xs [])
             (the (map_of (ds_vars_lower vs) (lower a))) = Some A"
  using assms
proof (induction xs arbitrary: A as a rule: rev_induct)
  case Nil
  then show ?case by simp
next
  case (snoc x xs)
  obtain B bs where x: "x = (B, bs)" by (cases x)
  let ?L = "ds_vars_lower vs"
  let ?D = "fold (rename_step vs ?L) xs []"
  have d: "distinct (map fst xs)" and Bnew: "B \<notin> fst ` set xs"
    using snoc.prems(1) by (auto simp: x)
  have disj: "lower a \<noteq> lower b"
    if "(A, as) \<in> set xs" "(B, bs) \<in> set xs" "A \<noteq> B" "a \<in> set as" "b \<in> set bs"
    for A as B bs a b
    using snoc.prems(2)[of A as B bs a b] that by simp
  have IH: "map_of ?D (the (map_of ?L (lower a))) = Some A"
    if "(A, as) \<in> set xs" "pick_alias vs A as = Some a" for A as a
    by (rule snoc.IH[OF d _ that]) (rule disj)
  have step: "fold (rename_step vs ?L) (xs @ [x]) [] = rename_step vs ?L (B, bs) ?D"
    by (simp add: x)
  show ?case
  proof (cases "(A, as) \<in> set xs")
    case inxs: True
    then have AB: "A \<noteq> B" using Bnew by force
    show ?thesis
    proof (cases "pick_alias vs B bs")
      case None
      then have "rename_step vs ?L (B, bs) ?D = ?D" by (simp add: rename_step_pick)
      with IH[OF inxs snoc.prems(4)] show ?thesis unfolding step by simp
    next
      case (Some b)
      let ?Vb = "the (map_of ?L (lower b))"
      have upd: "rename_step vs ?L (B, bs) ?D = AList.update ?Vb B ?D"
        using Some by (simp add: rename_step_pick)
      have b: "b \<in> set bs" "lower ?Vb = lower b" using pick_alias_Some[OF Some] by auto
      have a: "a \<in> set as" "lower (the (map_of ?L (lower a))) = lower a"
        using pick_alias_Some[OF snoc.prems(4)] by auto
      have "lower a \<noteq> lower b"
        using snoc.prems(2)[of A as B bs a b] inxs AB a(1) b(1) by (simp add: x)
      with a(2) b(2) have "the (map_of ?L (lower a)) \<noteq> ?Vb" by metis
      with IH[OF inxs snoc.prems(4)] show ?thesis
        unfolding step upd by (simp add: update_conv')
    qed
  next
    case False
    with snoc.prems(3) have AB: "A = B" "as = bs" by (auto simp: x)
    with snoc.prems(4) have "rename_step vs ?L (B, bs) ?D
        = AList.update (the (map_of ?L (lower a))) A ?D"
      by (simp add: rename_step_pick)
    then show ?thesis unfolding step by (simp add: update_conv')
  qed
qed

lemma rename_dict_persist:
  assumes "registry_wf P" "(A, as) \<in> set (default_mappings P)" "pick_alias vs A as = Some a"
  shows "map_of (rename_dict_of P vs) (the (map_of (ds_vars_lower vs) (lower a))) = Some A"
  unfolding rename_dict_of_def
  by (rule rename_fold_persist[OF registry_wf_distinct[OF assms(1)] _ assms(2,3)])
     (rule registry_wf_alias[OF assms(1)])

lemma rename_dict_unique:
  assumes "registry_wf P" "map_of (rename_dict_of P vs) V = Some A"
    "map_of (rename_dict_of P vs) W = Some A"
  shows "V = W"
proof -
  from rename_dict_origin[OF assms(2)] obtain as a where
    a: "(A, as) \<in> set (default_mappings P)" "pick_alias vs A as = Some a"
       "map_of (ds_vars_lower vs) (lower a) = Some V" by blast
  from rename_dict_origin[OF assms(3)] obtain bs b where
    b: "(A, bs) \<in> set (default_mappings P)" "pick_alias vs A bs = Some b"
       "map_of (ds_vars_lower vs) (lower b) = Some W" by blast
  from registry_wf_same_key[OF assms(1) a(1) b(1)] a(2) b(2) have "a = b" by simp
  with a(3) b(3) show ?thesis by simp
qed

lemma rename_dict_keys:
  assumes "V \<in> set (keys (rename_dict_of P vs))"
  shows "V \<in> set vs"
proof -
  from assms obtain A where "map_of (rename_dict_of P vs) V = Some A"
    by (cases "map_of (rename_dict_of P vs) V") (auto simp: keys_def map_of_eq_None_iff)
  from rename_dict_origin[OF this] ds_vars_lower_Some show ?thesis by blast
qed

lemma rename_dict_fresh:
  assumes "map_of (rename_dict_of P vs) V = Some A"
  shows "A \<notin> set vs"
  using rename_dict_origin[OF assms] pick_alias_Some by blast

lemma rename_distinct:
  assumes "registry_wf P" "distinct vs"
  shows "distinct (map (rename_name (rename_dict_of P vs)) vs)"
proof -
  let ?D = "rename_dict_of P vs"
  have "inj_on (rename_name ?D) (set vs)"
  proof (rule inj_onI)
    fix V W assume V: "V \<in> set vs" and W: "W \<in> set vs"
      and eq: "rename_name ?D V = rename_name ?D W"
    show "V = W"
    proof (cases "map_of ?D V")
      case None
      show ?thesis
      proof (cases "map_of ?D W")
        case N2: None
        with None eq show ?thesis by (simp add: rename_name_def)
      next
        case (Some B)
        with None eq have "V = B" by (simp add: rename_name_def)
        with rename_dict_fresh[OF Some] V show ?thesis by simp
      qed
    next
      case (Some A)
      show ?thesis
      proof (cases "map_of ?D W")
        case None
        with Some eq have "W = A" by (simp add: rename_name_def)
        with rename_dict_fresh[OF Some] W show ?thesis by simp
      next
        case S2: (Some B)
        with Some eq have "A = B" by (simp add: rename_name_def)
        with rename_dict_unique[OF assms(1) Some] S2 show ?thesis by simp
      qed
    qed
  qed
  with assms(2) show ?thesis by (simp add: distinct_map)
qed

lemma ds_rename_ok:
  assumes "set (keys nd) \<subseteq> set (keys (variables ds))"
    and "distinct (map (rename_name nd) (keys (variables ds)))"
  shows "\<exists>ds'. ds_rename nd ds = Inr ds'
           \<and> keys (variables ds') = map (rename_name nd) (keys (variables ds))"
proof -
  have k: "keys (map (\<lambda>(k, v). (rename_name nd k, v\<lparr>dims := map (rename_name nd) (dims v)\<rparr>))
                 (variables ds)) = map (rename_name nd) (keys (variables ds))"
    by (rule keys_map_rename)
  from assms(1) have "\<not> (\<exists>k \<in> set (keys nd). k \<notin> set (keys (variables ds)) \<and> k \<notin> set (ds_dims ds))"
    by blast
  then show ?thesis
    using assms(2) by (simp add: ds_rename_def Let_def k)
qed

lemma rename_pass_ok:
  assumes "registry_wf P" "distinct (keys (variables ds))"
  shows "\<exists>ds'. rename_xarray_parameters P ds = Inr ds'
           \<and> keys (variables ds')
               = map (rename_name (rename_dict_of P (keys (variables ds)))) (keys (variables ds))"
  unfolding rename_xarray_parameters_def
  using rename_dict_keys rename_distinct[OF assms]
  by (intro ds_rename_ok) auto

lemma postprocessing_ok:
  assumes "registry_wf P" "distinct (keys (variables ds))"
  shows "\<exists>ds'. perform_default_postprocessing P None ds = Inr ds'
           \<and> keys (variables ds')
               = map (rename_name (rename_dict_of P (keys (variables ds)))) (keys (variables ds))"
proof -
  from rename_pass_ok[OF assms] obtain ds1 where
    a: "rename_xarray_parameters P ds = Inr ds1"
    and b: "keys (variables ds1)
               = map (rename_name (rename_dict_of P (keys (variables ds)))) (keys (variables ds))"
    by blast
  from fill_metadata_ok[of P ds1] obtain ds2 where
    c: "fill_metadata P ds1 = Inr ds2" and d: "keys (variables ds2) = keys (variables ds1)" by blast
  from a b c d show ?thesis by (simp add: perform_default_postprocessing_def)
qed

text \<open>A canonical key that is a variable is not renamed.\<close>

lemma canonical_key_kept:
  assumes "registry_wf P" "K \<in> set (keys (default_mappings P))" "K \<in> set vs"
  shows "rename_name (rename_dict_of P vs) K = K"
proof (cases "map_of (rename_dict_of P vs) K")
  case None
  then show ?thesis by (simp add: rename_name_def)
next
  case (Some B)
  from rename_dict_origin[OF Some] obtain bs b where
    b: "(B, bs) \<in> set (default_mappings P)" "pick_alias vs B bs = Some b"
       "map_of (ds_vars_lower vs) (lower b) = Some K" by blast
  from pick_alias_Some[OF b(2)] have b': "b \<in> set bs" "B \<notin> set vs" by auto
  from ds_vars_lower_Some[OF b(3)] have l: "lower K = lower b" by simp
  from assms(2) obtain ks where K: "(K, ks) \<in> set (default_mappings P)"
    by (auto simp: keys_def)
  from b'(2) assms(3) have "B \<noteq> K" by blast
  from registry_wf_key[OF assms(1) b(1) K this b'(1)] l show ?thesis by simp
qed

text \<open>After the pass no alias is found any more.\<close>

lemma second_pass_picks_nothing:
  assumes wf: "registry_wf P" and A: "(A, as) \<in> set (default_mappings P)"
  shows "pick_alias (map (rename_name (rename_dict_of P vs)) vs) A as = None"
proof -
  let ?D = "rename_dict_of P vs"
  let ?vs1 = "map (rename_name ?D) vs"
  have "A \<in> set ?vs1" if a: "a \<in> set as" and l: "lower a \<in> lower ` set ?vs1" for a
  proof (rule ccontr)
    assume notin: "A \<notin> set ?vs1"
    from l obtain V where V: "V \<in> set vs" and lV: "lower a = lower (rename_name ?D V)" by auto
    show False
    proof (cases "map_of ?D V")
      case None
      then have la: "lower a \<in> lower ` set vs" using V lV by (auto simp: rename_name_def)
      show False
      proof (cases "A \<in> set vs")
        case True
        have "A \<in> set (keys (default_mappings P))" using A by (force simp: keys_def)
        from canonical_key_kept[OF wf this True] have "rename_name ?D A = A" .
        with True notin show False by force
      next
        case False
        with a la have "pick_alias vs A as \<noteq> None" by (auto simp: pick_alias_None)
        then obtain a' where p: "pick_alias vs A as = Some a'" by blast
        from pick_alias_Some[OF p] obtain W where
          W: "map_of (ds_vars_lower vs) (lower a') = Some W" "W \<in> set vs" by blast
        from rename_dict_persist[OF wf A p] W(1) have "map_of ?D W = Some A" by simp
        then have "rename_name ?D W = A" by (simp add: rename_name_def)
        with W(2) notin show False by force
      qed
    next
      case (Some B)
      then have rn: "rename_name ?D V = B" by (simp add: rename_name_def)
      from rename_dict_origin[OF Some] obtain bs where B: "(B, bs) \<in> set (default_mappings P)"
        by blast
      from rn V notin have "A \<noteq> B" by force
      from registry_wf_key[OF wf A B this a] lV rn show False by simp
    qed
  qed
  then show ?thesis by (auto simp: pick_alias_None)
qed

lemma fold_rename_step_nothing:
  "\<forall>(A, as) \<in> set xs. pick_alias vs A as = None \<Longrightarrow>
   fold (rename_step vs (ds_vars_lower vs)) xs D = D"
  by (induction xs arbitrary: D) (auto simp: rename_step_pick)

lemma second_pass_empty:
  assumes "registry_wf P"
  shows "rename_dict_of P (map (rename_name (rename_dict_of P vs)) vs) = []"
  unfolding rename_dict_of_def[of P "map (rename_name (rename_dict_of P vs)) vs"]
  using second_pass_picks_nothing[OF assms]
  by (intro fold_rename_step_nothing) auto

lemmas pp_eval =
  perform_default_postprocessing_def rename_xarray_parameters_def
  rename_dict_of_def rename_step_def ds_vars_lower_def lower_def lower_char_def ds_rename_def
  rename_name_def ds_dims_def fill_metadata_def data_vars_def coords_def keys_def
  assign_metadata_for_key_to_xarray_dataset_def assign_metadata_def fill_defaults_def
  example_registry_def result_names_def char_of_def bit_Suc_0_iff Let_def

text \<open>
  C8, as the claim states it: the pass with the caller's renames, applied twice,
  gives the names it gives when applied once. The caller's items are applied one
  after the other, each only if its source name is a variable at that moment: with
  the mapping that names \<^verbatim>\<open>a\<close> as \<^verbatim>\<open>b\<close> and \<^verbatim>\<open>b\<close> as \<^verbatim>\<open>c\<close>, listed in the order
  (\<^verbatim>\<open>c\<close> from \<^verbatim>\<open>b\<close>, \<^verbatim>\<open>b\<close> from \<^verbatim>\<open>a\<close>), the first pass renames \<^verbatim>\<open>a\<close> to \<^verbatim>\<open>b\<close> and the
  second renames \<^verbatim>\<open>b\<close> to \<^verbatim>\<open>c\<close>.
\<close>

theorem postprocessing_with_mapping_not_idempotent:
  "result_names (perform_default_postprocessing example_registry (Some example_mapping) example_dataset)
     = Inr [''time'', ''b'']
   \<and> result_names
        (bind_err (perform_default_postprocessing example_registry (Some example_mapping) example_dataset)
           (perform_default_postprocessing example_registry (Some example_mapping)))
     = Inr [''time'', ''c'']"
  by (simp add: pp_eval example_mapping_def example_dataset_def)

text \<open>
  C8, amended: without a caller's mapping, and with a registry in which no alias of
  a key is (without case) an alias of another key or another key, the pass
  succeeds on every dataset, succeeds again on its result, and leaves the names of
  the variables as the first pass made them; and a canonical key that is a
  variable of the dataset is not renamed.
\<close>

theorem postprocessing_idempotent:
  assumes "registry_wf P" "distinct (keys (variables ds))"
  shows "\<exists>ds1 ds2. perform_default_postprocessing P None ds = Inr ds1
           \<and> perform_default_postprocessing P None ds1 = Inr ds2
           \<and> keys (variables ds2) = keys (variables ds1)
           \<and> (\<forall>K \<in> set (keys (default_mappings P)).
                 K \<in> set (keys (variables ds)) \<longrightarrow>
                 rename_name (rename_dict_of P (keys (variables ds))) K = K)"
proof -
  let ?vs = "keys (variables ds)"
  let ?vs1 = "map (rename_name (rename_dict_of P ?vs)) ?vs"
  from postprocessing_ok[OF assms] obtain ds1 where
    a: "perform_default_postprocessing P None ds = Inr ds1" and b: "keys (variables ds1) = ?vs1"
    by blast
  have d1: "distinct (keys (variables ds1))" unfolding b by (rule rename_distinct[OF assms])
  from postprocessing_ok[OF assms(1) d1] obtain ds2 where
    c: "perform_default_postprocessing P None ds1 = Inr ds2"
    and d: "keys (variables ds2)
            = map (rename_name (rename_dict_of P (keys (variables ds1)))) (keys (variables ds1))"
    by blast
  have "rename_dict_of P (keys (variables ds1)) = []"
    unfolding b by (rule second_pass_empty[OF assms(1)])
  moreover have "map (rename_name []) (keys (variables ds1)) = keys (variables ds1)"
    by (simp add: rename_name_def map_idI)
  ultimately have "keys (variables ds2) = keys (variables ds1)"
    using d by simp
  with a c canonical_key_kept[OF assms(1)] show ?thesis by blast
qed

lemma example_registry_wf: "registry_wf example_registry"
  by (simp add: registry_wf_def example_registry_def keys_def lower_def lower_char_def
      char_of_def bit_Suc_0_iff)

lemma example_dataset_alias_names:
  "result_names (perform_default_postprocessing example_registry None example_dataset_alias)
   = Inr [''time'', ''temperature'', ''pressure'']"
  by (simp add: pp_eval example_dataset_alias_def)

theorem postprocessing_idempotent_witness:
  "registry_wf example_registry \<and> distinct (keys (variables example_dataset_alias))
   \<and> (\<exists>ds1 ds2. perform_default_postprocessing example_registry None example_dataset_alias = Inr ds1
         \<and> perform_default_postprocessing example_registry None ds1 = Inr ds2
         \<and> keys (variables ds1) = [''time'', ''temperature'', ''pressure'']
         \<and> keys (variables ds2) = [''time'', ''temperature'', ''pressure''])
   \<and> ''pressure'' \<in> set (keys (default_mappings example_registry))
   \<and> ''pressure'' \<in> set (keys (variables example_dataset_alias))
   \<and> rename_name (rename_dict_of example_registry (keys (variables example_dataset_alias))) ''pressure''
       = ''pressure''"
proof -
  have d: "distinct (keys (variables example_dataset_alias))"
    by (simp add: example_dataset_alias_def keys_def)
  have p: "''pressure'' \<in> set (keys (default_mappings example_registry))"
    "''pressure'' \<in> set (keys (variables example_dataset_alias))"
    by (simp_all add: example_registry_def example_dataset_alias_def keys_def)
  from postprocessing_idempotent[OF example_registry_wf d] obtain ds1 ds2 where
    a: "perform_default_postprocessing example_registry None example_dataset_alias = Inr ds1"
       "perform_default_postprocessing example_registry None ds1 = Inr ds2"
       "keys (variables ds2) = keys (variables ds1)" and
    c: "\<forall>K \<in> set (keys (default_mappings example_registry)).
          K \<in> set (keys (variables example_dataset_alias)) \<longrightarrow>
          rename_name (rename_dict_of example_registry (keys (variables example_dataset_alias))) K = K"
    by blast
  from c p have kept:
    "rename_name (rename_dict_of example_registry (keys (variables example_dataset_alias))) ''pressure''
       = ''pressure''"
    by blast
  from example_dataset_alias_names a(1) have "keys (variables ds1) = [''time'', ''temperature'', ''pressure'']"
    by (simp add: result_names_def)
  with a d p kept example_registry_wf show ?thesis by auto
qed

text \<open>
  The condition on the registry is needed. When two keys share an alias, the later
  key overwrites the entry of the earlier one in the rename dict; the earlier key
  is still absent after the pass and takes its next alias in the second pass.
\<close>

lemma overlapping_aliases_not_idempotent:
  "\<not> registry_wf overlapping_registry
   \<and> result_names (perform_default_postprocessing overlapping_registry None example_dataset_sal)
     = Inr [''time'', ''conductivity'', ''psal'']
   \<and> result_names
        (bind_err (perform_default_postprocessing overlapping_registry None example_dataset_sal)
           (perform_default_postprocessing overlapping_registry None))
     = Inr [''time'', ''conductivity'', ''salinity'']"
  by (simp add: pp_eval overlapping_registry_def example_dataset_sal_def registry_wf_def)

end
